theory Spec2Isabelle
  imports Complex_Main
begin

section \<open>JavaScript values\<close>

text \<open>
  The account routes of \<^verbatim>\<open>src/routes/account.js\<close> are written in JavaScript. The
  values that flow through them are modelled by the datatypes of this section.

  A JavaScript number is a double: NaN, one of the two infinities, or a finite binary
  fraction. The routes only compare numbers, take a minimum and apply \<^verbatim>\<open>| 0\<close>; none
  of these rounds, so a finite number is modelled by the rational it denotes (every
  finite double is one; \<open>+0\<close> and \<open>-0\<close> are both \<open>Fin 0\<close>, and the three operations
  do not tell them apart once \<^verbatim>\<open>| 0\<close> is applied).
\<close>

datatype jsnum = NaN | PosInf | NegInf | Fin rat

text \<open>The relational operator \<^verbatim>\<open>a < b\<close> on numbers: false whenever NaN is involved.\<close>

fun js_lt :: "jsnum \<Rightarrow> jsnum \<Rightarrow> bool" where
  "js_lt NaN _ = False"
| "js_lt _ NaN = False"
| "js_lt (Fin x) (Fin y) = (x < y)"
| "js_lt NegInf NegInf = False"
| "js_lt NegInf _ = True"
| "js_lt _ NegInf = False"
| "js_lt PosInf _ = False"
| "js_lt _ PosInf = True"

text \<open>\<^verbatim>\<open>a > b\<close> is \<^verbatim>\<open>b < a\<close> with the operands swapped.\<close>

definition js_gt :: "jsnum \<Rightarrow> jsnum \<Rightarrow> bool" where
  "js_gt a b = js_lt b a"

text \<open>\<^verbatim>\<open>Math.min(a, b)\<close>: NaN when either argument is NaN, the smaller one otherwise.\<close>

fun Math_min :: "jsnum \<Rightarrow> jsnum \<Rightarrow> jsnum" where
  "Math_min NaN _ = NaN"
| "Math_min _ NaN = NaN"
| "Math_min a b = (if js_lt b a then b else a)"

text \<open>
  \<^verbatim>\<open>x | 0\<close> applies ToInt32 to \<open>x\<close>: NaN and the infinities become 0, a finite number
  is truncated towards zero and then wrapped into the signed 32-bit range.
\<close>

definition trunc :: "rat \<Rightarrow> int" where
  "trunc r = (if 0 \<le> r then \<lfloor>r\<rfloor> else \<lceil>r\<rceil>)"

definition wrap32 :: "int \<Rightarrow> int" where
  "wrap32 k = (k + 2 ^ 31) mod 2 ^ 32 - 2 ^ 31"

fun ToInt32 :: "jsnum \<Rightarrow> int" where
  "ToInt32 (Fin r) = wrap32 (trunc r)"
| "ToInt32 _ = 0"

definition bitor0 :: "jsnum \<Rightarrow> jsnum" where
  "bitor0 x = Fin (of_int (ToInt32 x))"

text \<open>
  Values: \<open>JFun\<close> is a function object, told apart from other functions by its number;
  \<open>JBlob\<close> is an \<^verbatim>\<open>SKBlob\<close> built by \<^verbatim>\<open>new SKBlob(buffer)\<close> from the bytes of the
  buffer. Strings and byte sequences are both \<open>string\<close>.
\<close>

datatype jsval =
    JUndefined
  | JNull
  | JBool bool
  | JNum jsnum
  | JStr string
  | JArr "jsval list"
  | JObj "(string \<times> jsval) list"
  | JFun nat
  | JBlob string

text \<open>The truthiness a condition (\<^verbatim>\<open>if (v)\<close>, \<^verbatim>\<open>v ? a : b\<close>, \<^verbatim>\<open>!!v\<close>) tests.\<close>

fun truthy :: "jsval \<Rightarrow> bool" where
  "truthy JUndefined = False"
| "truthy JNull = False"
| "truthy (JBool b) = b"
| "truthy (JNum NaN) = False"
| "truthy (JNum (Fin r)) = (r \<noteq> 0)"
| "truthy (JNum _) = True"
| "truthy (JStr s) = (s \<noteq> [])"
| "truthy _ = True"

text \<open>
  Reading a property that the routes expect on a parsed response: \<^verbatim>\<open>v[k]\<close> is the
  property's value for an object that has it and \<^verbatim>\<open>undefined\<close> otherwise (the key read
  here, \<^verbatim>\<open>'best_friends'\<close>, is not a property of numbers, strings, booleans or arrays).
\<close>

fun js_get :: "jsval \<Rightarrow> string \<Rightarrow> jsval" where
  "js_get (JObj kvs) k = (case map_of kvs k of Some v \<Rightarrow> v | None \<Rightarrow> JUndefined)"
| "js_get _ k = JUndefined"

section \<open>JSON text\<close>

text \<open>
  \<^verbatim>\<open>JSON.stringify\<close> on the two shapes the routes serialise: an array of strings (the
  story block list) and an object whose values are booleans (the feature flags). A string
  is quoted with the escapes of the JSON grammar: the quote, the backslash, the five
  short escapes, and \<^verbatim>\<open>\u00xx\<close> for the other characters below 0x20.
\<close>

definition hex_digit :: "nat \<Rightarrow> char" where
  "hex_digit n = (if n < 10 then char_of (48 + n) else char_of (87 + n))"

definition json_escape :: "char \<Rightarrow> string" where
  "json_escape c =
     (if c = CHR 0x22 then [CHR 0x5C, CHR 0x22]
      else if c = CHR 0x5C then [CHR 0x5C, CHR 0x5C]
      else if c = CHR 0x08 then [CHR 0x5C, CHR ''b'']
      else if c = CHR 0x0C then [CHR 0x5C, CHR ''f'']
      else if c = CHR 0x0A then [CHR 0x5C, CHR ''n'']
      else if c = CHR 0x0D then [CHR 0x5C, CHR ''r'']
      else if c = CHR 0x09 then [CHR 0x5C, CHR ''t'']
      else if (of_char c :: nat) < 32
        then [CHR 0x5C, CHR ''u'', CHR ''0'', CHR ''0'',
              hex_digit ((of_char c :: nat) div 16), hex_digit ((of_char c :: nat) mod 16)]
      else [c])"

definition json_quote :: "string \<Rightarrow> string" where
  "json_quote s = [CHR 0x22] @ concat (map json_escape s) @ [CHR 0x22]"

fun join :: "string \<Rightarrow> string list \<Rightarrow> string" where
  "join sep [] = []"
| "join sep [x] = x"
| "join sep (x # y # ys) = x @ sep @ join sep (y # ys)"

definition stringify_strings :: "string list \<Rightarrow> string" where
  "stringify_strings xs = ''['' @ join '','' (map json_quote xs) @ '']''"

definition stringify_member :: "string \<times> bool \<Rightarrow> string" where
  "stringify_member kv = json_quote (fst kv) @ '':'' @ (if snd kv then ''true'' else ''false'')"

definition stringify_flags :: "(string \<times> bool) list \<Rightarrow> string" where
  "stringify_flags kvs = ''{'' @ join '','' (map stringify_member kvs) @ ''}''"

section \<open>The client, its session and the transport\<close>

text \<open>
  \<^verbatim>\<open>self.client\<close> holds the user name and the current session. Of the session the routes
  read the eight feature flags and the QR path, and write \<^verbatim>\<open>bestFriendUsernames\<close>.
\<close>

record session =
  bestFriendUsernames :: jsval
  enableFrontFacingFlash :: bool
  enableReplaySnaps :: bool
  enableSmartFilters :: bool
  enableVisualFilters :: bool
  enablePowerSaveMode :: bool
  enableSpecialText :: bool
  enableSwipeCashMode :: bool
  enableTravelMode :: bool
  QRPath :: string

record client =
  username :: string
  currentSession :: session

text \<open>
  The endpoints are entries of \<^verbatim>\<open>constants.endpoints\<close>, a table that is not part of
  the route file; an endpoint is named here by the entry the route reads.
\<close>

datatype endpoint =
    account_setBestsCount
  | account_settings
  | update_featureSettings
  | account_snaptag
  | account_avatar_get
  | update_user

type_synonym params = "(string \<times> jsval) list"

text \<open>
  \<^verbatim>\<open>client.post(endpoint, params, callback)\<close> is the transport. It answers a request by
  calling the callback with \<^verbatim>\<open>(err, response, body)\<close>. The transport is a parameter of
  every route: a function from the request to the answer it delivers.
\<close>

record reply =
  err :: jsval
  response :: jsval
  body :: string

type_synonym transport = "endpoint \<Rightarrow> params \<Rightarrow> reply"

text \<open>
  The state a route runs in: the client, and the requests handed to the transport so far
  (oldest first).
\<close>

record world =
  cl :: client
  posts :: "(endpoint \<times> params) list"

text \<open>
  What a route does to its caller: it ends with one call of a function value on a list of
  arguments (\<open>Called f args\<close>), or it throws an \<^verbatim>\<open>Error\<close> with a message.
\<close>

datatype outcome = Called jsval "jsval list" | Threw string

definition client_post ::
  "transport \<Rightarrow> endpoint \<Rightarrow> params \<Rightarrow> (reply \<Rightarrow> world \<Rightarrow> outcome \<times> world) \<Rightarrow> world
    \<Rightarrow> outcome \<times> world" where
  "client_post T ep ps k w = k (T ep ps) (w\<lparr>posts := posts w @ [(ep, ps)]\<rparr>)"

text \<open>A callback handed to the transport as it is receives the transport's three values.\<close>

definition forward :: "jsval \<Rightarrow> reply \<Rightarrow> world \<Rightarrow> outcome \<times> world" where
  "forward cb r w = (Called cb [err r, response r, JStr (body r)], w)"

section \<open>Collaborators outside the route file\<close>

text \<open>
  Modelled from the spec: \<^verbatim>\<open>StringUtils.tryParseJSON\<close> lives in \<^verbatim>\<open>lib/string-utils\<close>,
  which is not among the sources. The spec says that the body is parsed as JSON and that
  parsing may fail; the route tests the result for truthiness, so a failed parse is a
  falsy result. The JSON parser itself is the parameter \<open>parse\<close> (\<open>None\<close> when the text
  is not JSON).
\<close>

definition tryParseJSON :: "(string \<Rightarrow> jsval option) \<Rightarrow> string \<Rightarrow> jsval" where
  "tryParseJSON parse s = (case parse s of Some v \<Rightarrow> v | None \<Rightarrow> JNull)"

text \<open>
  \<^verbatim>\<open>constants.featureSettings\<close>, the table of the eight feature names, is not among the
  sources either: it is a parameter of \<open>updateFeatureSettings\<close>. The names are taken to
  be ordinary keys of a dictionary (identifiers such as \<^verbatim>\<open>front_facing_flash\<close>): none
  is an array index or the name of a property every object inherits.
\<close>

record featureSettings =
  frontFacingFlash :: string
  replaySnaps :: string
  smartFilters :: string
  visualFilters :: string
  powerSaveMode :: string
  specialText :: string
  swipeCashMode :: string
  travelMode :: string

definition feature_names :: "featureSettings \<Rightarrow> string list" where
  "feature_names fs =
     [frontFacingFlash fs, replaySnaps fs, smartFilters fs, visualFilters fs,
      powerSaveMode fs, specialText fs, swipeCashMode fs, travelMode fs]"

text \<open>
  \<^verbatim>\<open>constants.stringFromStoryPrivacy\<close> (the label of a story privacy level) and
  \<^verbatim>\<open>SKBlob.decompress\<close> (the decoder of \<^verbatim>\<open>models/blob\<close>, which takes a buffer and a
  callback) are parameters of the routes that call them.
\<close>

type_synonym label_table = "int \<Rightarrow> jsval"

type_synonym decoder = "string \<Rightarrow> jsval \<Rightarrow> outcome"

section \<open>The routes\<close>

text \<open>
  Each route is the function of the same name in \<^verbatim>\<open>src/routes/account.js\<close>. The calls
  of \<^verbatim>\<open>debug\<close> only write to a log and are left out.
\<close>

subsection \<open>updateBestFriendsCount\<close>

definition parse_error :: string where
  "parse_error = ''Snapchat.Account.updateBestFriendsCount parse error''"

definition clamp_count :: "jsnum \<Rightarrow> jsnum" where
  "clamp_count number =
     (let number = (if js_lt number (Fin 3) then Fin 3 else number);
          number = (if js_gt number (Fin 7) then Fin 7 else number)
      in number)"

definition set_bestFriendUsernames :: "jsval \<Rightarrow> world \<Rightarrow> world" where
  "set_bestFriendUsernames v w =
     w\<lparr>cl := (cl w)\<lparr>currentSession := (currentSession (cl w))\<lparr>bestFriendUsernames := v\<rparr>\<rparr>\<rparr>"

definition bestFriendsCount_done ::
  "(string \<Rightarrow> jsval option) \<Rightarrow> jsval \<Rightarrow> reply \<Rightarrow> world \<Rightarrow> outcome \<times> world" where
  "bestFriendsCount_done parse cb r w =
     (if truthy (err r) then (Called cb [err r], w)
      else
        let result = tryParseJSON parse (body r) in
        if truthy result
        then (Called cb [JNull], set_bestFriendUsernames (js_get result ''best_friends'') w)
        else (Called cb [JStr parse_error], w))"

definition bestFriendsCount_params :: "jsnum \<Rightarrow> world \<Rightarrow> params" where
  "bestFriendsCount_params number w =
     [(''num_best_friends'', JNum (bitor0 (clamp_count number))),
      (''username'', JStr (username (cl w)))]"

definition updateBestFriendsCount ::
  "transport \<Rightarrow> (string \<Rightarrow> jsval option) \<Rightarrow> jsnum \<Rightarrow> jsval \<Rightarrow> world \<Rightarrow> outcome \<times> world" where
  "updateBestFriendsCount T parse number cb w =
     client_post T account_setBestsCount (bestFriendsCount_params number w)
       (bestFriendsCount_done parse cb) w"

subsection \<open>updateSnapPrivacy\<close>

definition snapPrivacy_params :: "jsnum \<Rightarrow> world \<Rightarrow> params" where
  "snapPrivacy_params privacy w =
     (let privacy = bitor0 (Math_min privacy (Fin 1)) in
      [(''action'', JStr ''updatePrivacy''),
       (''privacySetting'', JNum privacy),
       (''username'', JStr (username (cl w)))])"

definition updateSnapPrivacy :: "transport \<Rightarrow> jsnum \<Rightarrow> jsval \<Rightarrow> world \<Rightarrow> outcome \<times> world" where
  "updateSnapPrivacy T privacy cb w =
     client_post T account_settings (snapPrivacy_params privacy w) (forward cb) w"

subsection \<open>updateStoryPrivacy\<close>

text \<open>
  The second argument is the optional block list: an array of user names, \<^verbatim>\<open>null\<close> or
  \<^verbatim>\<open>undefined\<close> when there is none, or the callback itself when the caller leaves the
  list out.
\<close>

datatype friends_arg =
    FriendsUndefined
  | FriendsNull
  | FriendsList "string list"
  | FriendsFun nat

fun is_function :: "friends_arg \<Rightarrow> bool" where
  "is_function (FriendsFun f) = True"
| "is_function _ = False"

fun friends_value :: "friends_arg \<Rightarrow> jsval" where
  "friends_value FriendsUndefined = JUndefined"
| "friends_value FriendsNull = JNull"
| "friends_value (FriendsList xs) = JArr (map JStr xs)"
| "friends_value (FriendsFun f) = JFun f"

text \<open>
  \<^verbatim>\<open>JSON.stringify(friends)\<close>: the JSON text of an array of strings, \<^verbatim>\<open>"null"\<close> for
  \<^verbatim>\<open>null\<close>, and \<^verbatim>\<open>undefined\<close> (no text) for \<^verbatim>\<open>undefined\<close> and for a function.
\<close>

fun stringify_friends :: "friends_arg \<Rightarrow> jsval" where
  "stringify_friends (FriendsList xs) = JStr (stringify_strings xs)"
| "stringify_friends FriendsNull = JStr ''null''"
| "stringify_friends _ = JUndefined"

text \<open>
  The first step of the route: a function in the place of the list is the callback, and
  there is no list.
\<close>

definition shift_args :: "friends_arg \<Rightarrow> jsval \<Rightarrow> friends_arg \<times> jsval" where
  "shift_args friends cb =
     (if is_function friends then (FriendsNull, friends_value friends) else (friends, cb))"

definition storyPrivacy_params :: "label_table \<Rightarrow> jsnum \<Rightarrow> friends_arg \<Rightarrow> world \<Rightarrow> params" where
  "storyPrivacy_params stringFromStoryPrivacy privacy friends w =
     (let params =
            [(''action'', JStr ''updateStoryPrivacy''),
             (''privacySetting'', stringFromStoryPrivacy (ToInt32 privacy)),
             (''username'', JStr (username (cl w)))]
      in if truthy (friends_value friends)
         then params @ [(''storyFriendsToBlock'', stringify_friends friends)]
         else params)"

definition updateStoryPrivacy ::
  "transport \<Rightarrow> label_table \<Rightarrow> jsnum \<Rightarrow> friends_arg \<Rightarrow> jsval \<Rightarrow> world \<Rightarrow> outcome \<times> world" where
  "updateStoryPrivacy T stringFromStoryPrivacy privacy friends cb w =
     (let (friends, cb) = shift_args friends cb in
      client_post T account_settings
        (storyPrivacy_params stringFromStoryPrivacy privacy friends w) (forward cb) w)"

subsection \<open>updateEmail, updateSearchableByNumber, updateNotificationSoundSetting\<close>

definition email_params :: "jsval \<Rightarrow> world \<Rightarrow> params" where
  "email_params address w =
     [(''action'', JStr ''updateEmail''),
      (''email'', address),
      (''username'', JStr (username (cl w)))]"

definition updateEmail :: "transport \<Rightarrow> jsval \<Rightarrow> jsval \<Rightarrow> world \<Rightarrow> outcome \<times> world" where
  "updateEmail T address cb w =
     client_post T account_settings (email_params address w) (forward cb) w"

definition searchable_params :: "jsval \<Rightarrow> world \<Rightarrow> params" where
  "searchable_params searchable w =
     [(''action'', JStr ''updateSearchableByPhoneNumber''),
      (''searchable'', JBool (\<not> \<not> truthy searchable)),
      (''username'', JStr (username (cl w)))]"

definition updateSearchableByNumber ::
  "transport \<Rightarrow> jsval \<Rightarrow> jsval \<Rightarrow> world \<Rightarrow> outcome \<times> world" where
  "updateSearchableByNumber T searchable cb w =
     client_post T account_settings (searchable_params searchable w) (forward cb) w"

definition notificationSound_params :: "jsval \<Rightarrow> world \<Rightarrow> params" where
  "notificationSound_params enableSound w =
     [(''action'', JStr ''updateNotificationSoundSetting''),
      (''notificationSoundSetting'', JStr (if truthy enableSound then ''ON'' else ''OFF'')),
      (''username'', JStr (username (cl w)))]"

definition updateNotificationSoundSetting ::
  "transport \<Rightarrow> jsval \<Rightarrow> jsval \<Rightarrow> world \<Rightarrow> outcome \<times> world" where
  "updateNotificationSoundSetting T enableSound cb w =
     client_post T account_settings (notificationSound_params enableSound w) (forward cb) w"

subsection \<open>updateFeatureSettings\<close>

text \<open>
  \<^verbatim>\<open>settings\<close> is a dictionary from names to booleans. \<^verbatim>\<open>settings[name] || flag\<close> is
  the flag when the name is missing (the lookup is \<^verbatim>\<open>undefined\<close>) or maps to
  \<^verbatim>\<open>false\<close>, and \<^verbatim>\<open>true\<close> otherwise.
\<close>

fun js_or :: "bool option \<Rightarrow> bool \<Rightarrow> bool" where
  "js_or None c = c"
| "js_or (Some b) c = (if b then b else c)"

text \<open>
  \<^verbatim>\<open>obj[k] = v\<close> on an object kept as the list of its properties in the order
  \<^verbatim>\<open>JSON.stringify\<close> visits them: a key the object has keeps its place, a new key goes
  last. (This is the order of keys that are not array indices; the feature names are
  identifiers.)
\<close>

fun obj_set :: "(string \<times> 'v) list \<Rightarrow> string \<Rightarrow> 'v \<Rightarrow> (string \<times> 'v) list" where
  "obj_set [] k v = [(k, v)]"
| "obj_set ((k', v') # kvs) k v =
     (if k' = k then (k, v) # kvs else (k', v') # obj_set kvs k v)"

definition merge_features ::
  "featureSettings \<Rightarrow> (string \<rightharpoonup> bool) \<Rightarrow> session \<Rightarrow> (string \<times> bool) list" where
  "merge_features fs settings s =
     (let features = [];
          features = obj_set features (frontFacingFlash fs)
            (js_or (settings (frontFacingFlash fs)) (enableFrontFacingFlash s));
          features = obj_set features (replaySnaps fs)
            (js_or (settings (replaySnaps fs)) (enableReplaySnaps s));
          features = obj_set features (smartFilters fs)
            (js_or (settings (smartFilters fs)) (enableSmartFilters s));
          features = obj_set features (visualFilters fs)
            (js_or (settings (visualFilters fs)) (enableVisualFilters s));
          features = obj_set features (powerSaveMode fs)
            (js_or (settings (powerSaveMode fs)) (enablePowerSaveMode s));
          features = obj_set features (specialText fs)
            (js_or (settings (specialText fs)) (enableSpecialText s));
          features = obj_set features (swipeCashMode fs)
            (js_or (settings (swipeCashMode fs)) (enableSwipeCashMode s));
          features = obj_set features (travelMode fs)
            (js_or (settings (travelMode fs)) (enableTravelMode s))
      in features)"

definition featureSettings_params ::
  "featureSettings \<Rightarrow> (string \<rightharpoonup> bool) \<Rightarrow> world \<Rightarrow> params" where
  "featureSettings_params fs settings w =
     (let features = merge_features fs settings (currentSession (cl w)) in
      [(''settings'', JStr (stringify_flags features)),
       (''username'', JStr (username (cl w)))])"

definition updateFeatureSettings ::
  "transport \<Rightarrow> featureSettings \<Rightarrow> (string \<rightharpoonup> bool) \<Rightarrow> jsval \<Rightarrow> world \<Rightarrow> outcome \<times> world" where
  "updateFeatureSettings T fs settings cb w =
     client_post T update_featureSettings (featureSettings_params fs settings w) (forward cb) w"

subsection \<open>downloadSnaptag, uploadAvatar, downloadAvatar\<close>

text \<open>
  The body the transport delivers is modelled as the sequence of its bytes;
  \<^verbatim>\<open>new Buffer(body)\<close> is a buffer holding these bytes.
\<close>

definition new_Buffer :: "string \<Rightarrow> string" where
  "new_Buffer b = b"

definition snaptag_done :: "jsval \<Rightarrow> reply \<Rightarrow> world \<Rightarrow> outcome \<times> world" where
  "snaptag_done cb r w =
     (if truthy (err r) then (Called cb [err r], w)
      else (Called cb [JNull, JBlob (new_Buffer (body r))], w))"

definition snaptag_params :: "world \<Rightarrow> params" where
  "snaptag_params w =
     [(''image'', JStr (QRPath (currentSession (cl w)))),
      (''type'', JStr ''SVG''),
      (''username'', JStr (username (cl w)))]"

definition downloadSnaptag :: "transport \<Rightarrow> jsval \<Rightarrow> world \<Rightarrow> outcome \<times> world" where
  "downloadSnaptag T cb w = client_post T account_snaptag (snaptag_params w) (snaptag_done cb) w"

definition uploadAvatar :: "transport \<Rightarrow> jsval \<Rightarrow> jsval \<Rightarrow> world \<Rightarrow> outcome \<times> world" where
  "uploadAvatar T images cb w = (Threw ''Account.uploadAvatar TODO'', w)"

definition avatar_done :: "decoder \<Rightarrow> jsval \<Rightarrow> reply \<Rightarrow> world \<Rightarrow> outcome \<times> world" where
  "avatar_done decompress cb r w =
     (if truthy (err r) then (Called cb [err r], w)
      else (decompress (new_Buffer (body r)) cb, w))"

definition avatar_params :: "jsval \<Rightarrow> world \<Rightarrow> params" where
  "avatar_params user w =
     [(''username_image'', user),
      (''username'', JStr (username (cl w))),
      (''size'', JStr ''MEDIUM'')]"

definition downloadAvatar ::
  "transport \<Rightarrow> decoder \<Rightarrow> jsval \<Rightarrow> jsval \<Rightarrow> world \<Rightarrow> outcome \<times> world" where
  "downloadAvatar T decompress user cb w =
     client_post T account_avatar_get (avatar_params user w) (avatar_done decompress cb) w"

subsection \<open>updateTOSAgreementStatus\<close>

definition TOSAgreement_params :: "jsval \<Rightarrow> jsval \<Rightarrow> jsval \<Rightarrow> world \<Rightarrow> params" where
  "TOSAgreement_params snapcash snapcashV2 square w =
     (let agreements = JObj
            [(''snapcash_new_tos_accepted'', JStr (if truthy snapcash then ''true'' else ''false'')),
             (''snapcash_tos_v2_accepted'', JStr (if truthy snapcashV2 then ''true'' else ''false'')),
             (''square_tos_accepted'', JStr (if truthy square then ''true'' else ''false''))]
      in [(''username'', JStr (username (cl w))),
          (''agreements'', agreements)])"

definition updateTOSAgreementStatus ::
  "transport \<Rightarrow> jsval \<Rightarrow> jsval \<Rightarrow> jsval \<Rightarrow> jsval \<Rightarrow> world \<Rightarrow> outcome \<times> world" where
  "updateTOSAgreementStatus T snapcash snapcashV2 square cb w =
     client_post T update_user (TOSAgreement_params snapcash snapcashV2 square w) (forward cb) w"

section \<open>Reading JSON text back\<close>

text \<open>
  To say what a JSON text holds, the text is read back: \<open>scan\<close> cuts it into string
  literals (with their escapes undone), bare words and single characters, and
  \<open>parse_strings\<close> and \<open>parse_flags\<close> read an array of strings and an object of booleans
  from the pieces. A reader accepts more than the serialiser writes (any \<^verbatim>\<open>\u00xx\<close>
  escape, the escaped solidus, upper-case hex digits).
\<close>

datatype token = TStr string | TWord string | TChar char

definition is_letter :: "char \<Rightarrow> bool" where
  "is_letter c = (97 \<le> (of_char c :: nat) \<and> (of_char c :: nat) \<le> 122)"

definition hex_value :: "char \<Rightarrow> nat option" where
  "hex_value c =
     (let k = (of_char c :: nat) in
      if 48 \<le> k \<and> k \<le> 57 then Some (k - 48)
      else if 97 \<le> k \<and> k \<le> 102 then Some (k - 87)
      else if 65 \<le> k \<and> k \<le> 70 then Some (k - 55)
      else None)"

definition unescape :: "char \<Rightarrow> char option" where
  "unescape c =
     (if c = CHR 0x22 then Some (CHR 0x22)
      else if c = CHR 0x5C then Some (CHR 0x5C)
      else if c = CHR ''/'' then Some (CHR ''/'')
      else if c = CHR ''b'' then Some (CHR 0x08)
      else if c = CHR ''f'' then Some (CHR 0x0C)
      else if c = CHR ''n'' then Some (CHR 0x0A)
      else if c = CHR ''r'' then Some (CHR 0x0D)
      else if c = CHR ''t'' then Some (CHR 0x09)
      else None)"

text \<open>
  The scanner is outside a string literal (\<open>Plain\<close>), inside a bare word, inside a string
  literal whose content so far it carries, after a backslash, or inside the four hex
  digits of a \<^verbatim>\<open>\u\<close> escape (digits still to come, value so far).
\<close>

datatype scan_state = Plain | Word string | InStr string | Esc string | Hex string nat nat

definition emit :: "token \<Rightarrow> token list option \<Rightarrow> token list option" where
  "emit t r = map_option ((#) t) r"

fun scan :: "scan_state \<Rightarrow> string \<Rightarrow> token list option" where
  "scan Plain [] = Some []"
| "scan (Word w) [] = Some [TWord w]"
| "scan _ [] = None"
| "scan Plain (c # cs) =
     (if c = CHR 0x22 then scan (InStr []) cs
      else if is_letter c then scan (Word [c]) cs
      else emit (TChar c) (scan Plain cs))"
| "scan (Word w) (c # cs) =
     (if is_letter c then scan (Word (w @ [c])) cs
      else if c = CHR 0x22 then emit (TWord w) (scan (InStr []) cs)
      else emit (TWord w) (emit (TChar c) (scan Plain cs)))"
| "scan (InStr s) (c # cs) =
     (if c = CHR 0x22 then emit (TStr s) (scan Plain cs)
      else if c = CHR 0x5C then scan (Esc s) cs
      else scan (InStr (s @ [c])) cs)"
| "scan (Esc s) (c # cs) =
     (if c = CHR ''u'' then scan (Hex s 4 0) cs
      else case unescape c of
             None \<Rightarrow> None
           | Some d \<Rightarrow> scan (InStr (s @ [d])) cs)"
| "scan (Hex s k v) (c # cs) =
     (case hex_value c of
        None \<Rightarrow> None
      | Some d \<Rightarrow>
          if k \<le> 1 then
            (if v * 16 + d < 256 then scan (InStr (s @ [char_of (v * 16 + d)])) cs else None)
          else scan (Hex s (k - 1) (v * 16 + d)) cs)"

fun items :: "token list \<Rightarrow> string list option" where
  "items (TStr s # TChar c # rest) =
     (if c = CHR '','' then map_option ((#) s) (items rest)
      else if c = CHR '']'' \<and> rest = [] then Some [s]
      else None)"
| "items _ = None"

definition parse_strings :: "string \<Rightarrow> string list option" where
  "parse_strings text =
     (case scan Plain text of
        Some (TChar c # rest) \<Rightarrow>
          if c = CHR ''['' then (if rest = [TChar (CHR '']'')] then Some [] else items rest)
          else None
      | _ \<Rightarrow> None)"

fun members :: "token list \<Rightarrow> (string \<times> bool) list option" where
  "members (TStr k # TChar c # TWord w # TChar d # rest) =
     (if c = CHR '':'' \<and> (w = ''true'' \<or> w = ''false'') then
        (if d = CHR '','' then map_option ((#) (k, w = ''true'')) (members rest)
         else if d = CHR ''}'' \<and> rest = [] then Some [(k, w = ''true'')]
         else None)
      else None)"
| "members _ = None"

definition parse_flags :: "string \<Rightarrow> (string \<times> bool) list option" where
  "parse_flags text =
     (case scan Plain text of
        Some (TChar c # rest) \<Rightarrow>
          if c = CHR ''{'' then (if rest = [TChar (CHR ''}'')] then Some [] else members rest)
          else None
      | _ \<Rightarrow> None)"

text \<open>The eight cached flags of the session, in the order the route reads them.\<close>

definition cached_flags :: "session \<Rightarrow> bool list" where
  "cached_flags s =
     [enableFrontFacingFlash s, enableReplaySnaps s, enableSmartFilters s, enableVisualFilters s,
      enablePowerSaveMode s, enableSpecialText s, enableSwipeCashMode s, enableTravelMode s]"

section \<open>Example inputs\<close>

text \<open>
  A client, a transport that answers every request with the same successful reply, a
  parser that knows two response bodies, and tables for the collaborators: the concrete
  inputs at which the theorems below are instantiated.
\<close>

definition example_session :: session where
  "example_session =
     \<lparr>bestFriendUsernames = JArr [JStr ''ann'', JStr ''ben'', JStr ''cat''],
      enableFrontFacingFlash = True,
      enableReplaySnaps = False,
      enableSmartFilters = False,
      enableVisualFilters = True,
      enablePowerSaveMode = False,
      enableSpecialText = False,
      enableSwipeCashMode = False,
      enableTravelMode = False,
      QRPath = ''/qr/me''\<rparr>"

definition example_world :: world where
  "example_world = \<lparr>cl = \<lparr>username = ''me'', currentSession = example_session\<rparr>, posts = []\<rparr>"

definition reply_ok :: "string \<Rightarrow> reply" where
  "reply_ok b = \<lparr>err = JNull, response = JObj [(''statusCode'', JNum (Fin 200))], body = b\<rparr>"

definition reply_failed :: reply where
  "reply_failed = \<lparr>err = JStr ''ECONNRESET'', response = JUndefined, body = []\<rparr>"

definition example_transport :: "string \<Rightarrow> transport" where
  "example_transport b ep ps = reply_ok b"

definition best_friends_body :: string where
  "best_friends_body =
     ''{'' @ json_quote ''best_friends'' @ '':'' @ stringify_strings [''x'', ''y'', ''z''] @ ''}''"

definition example_parse :: "string \<Rightarrow> jsval option" where
  "example_parse s =
     (if s = best_friends_body
        then Some (JObj [(''best_friends'', JArr [JStr ''x'', JStr ''y'', JStr ''z''])])
      else if s = ''{}'' then Some (JObj [])
      else None)"

definition example_labels :: label_table where
  "example_labels i =
     (if i = 0 then JStr ''EVERYONE''
      else if i = 1 then JStr ''FRIENDS''
      else if i = 2 then JStr ''CUSTOM''
      else JUndefined)"

definition example_decoder :: decoder where
  "example_decoder buf cb = Called cb [JNull, JBlob (rev buf)]"

definition example_settings :: "string \<rightharpoonup> bool" where
  "example_settings =
     [''front_facing_flash'' \<mapsto> False, ''replay_snaps'' \<mapsto> True, ''bogus'' \<mapsto> True]"

definition example_features :: featureSettings where
  "example_features =
     \<lparr>frontFacingFlash = ''front_facing_flash'',
      replaySnaps = ''replay_snaps'',
      smartFilters = ''smart_filters'',
      visualFilters = ''visual_filters'',
      powerSaveMode = ''power_save_mode'',
      specialText = ''special_text'',
      swipeCashMode = ''swipe_cash_mode'',
      travelMode = ''travel_mode''\<rparr>"

section \<open>Properties of the routes\<close>

subsection \<open>Numbers\<close>

lemma trunc_of_int: "trunc (of_int n) = n"
  by (simp add: trunc_def)

lemma wrap32_id: "- (2 ^ 31) \<le> k \<Longrightarrow> k < 2 ^ 31 \<Longrightarrow> wrap32 k = k"
  by (simp add: wrap32_def)

lemma bitor0_of_int:
  "- (2 ^ 31) \<le> n \<Longrightarrow> n < 2 ^ 31 \<Longrightarrow> bitor0 (Fin (of_int n)) = Fin (of_int n)"
  by (simp add: bitor0_def trunc_of_int wrap32_id)

lemma wrap32_range: "- (2 ^ 31) \<le> wrap32 k \<and> wrap32 k < 2 ^ 31"
proof -
  have "0 \<le> (k + 2 ^ 31) mod 2 ^ 32" and "(k + 2 ^ 31) mod 2 ^ 32 < (2 ^ 32 :: int)"
    by simp_all
  then show ?thesis
    by (simp add: wrap32_def)
qed

lemma wrap32_fixed_iff: "wrap32 k = k \<longleftrightarrow> - (2 ^ 31) \<le> k \<and> k < 2 ^ 31"
  using wrap32_range [of k] wrap32_id [of k] by auto

lemma clamp_count_of_int:
  "clamp_count (Fin (of_int n)) = Fin (of_int (if n < 3 then 3 else if 7 < n then 7 else n))"
  by (simp add: clamp_count_def js_gt_def Let_def)

lemma Math_min_of_int: "Math_min (Fin (of_int n)) (Fin 1) = Fin (of_int (min n 1))"
  by (simp add: min_def)

subsection \<open>updateBestFriendsCount: the request\<close>

lemma client_post_forward:
  "client_post T ep ps (forward cb) w =
     (Called cb [err (T ep ps), response (T ep ps), JStr (body (T ep ps))],
      w\<lparr>posts := posts w @ [(ep, ps)]\<rparr>)"
  by (simp add: client_post_def forward_def)

lemma posts_bestFriendsCount_done: "posts (snd (bestFriendsCount_done parse cb r w)) = posts w"
  by (simp add: bestFriendsCount_done_def set_bestFriendUsernames_def Let_def)

lemma posts_updateBestFriendsCount:
  "posts (snd (updateBestFriendsCount T parse number cb w)) =
     posts w @ [(account_setBestsCount, bestFriendsCount_params number w)]"
  by (simp add: updateBestFriendsCount_def client_post_def posts_bestFriendsCount_done)

text \<open>
  Claim C4. For every integer \<open>n\<close>, \<^verbatim>\<open>updateBestFriendsCount(n)\<close> hands the transport
  exactly one request, to the endpoint \<^verbatim>\<open>account.setBestsCount\<close>, whose
  \<^verbatim>\<open>num_best_friends\<close> is the integer 3 when \<open>n < 3\<close>, 7 when \<open>n > 7\<close>, and \<open>n\<close>
  itself when \<open>3 \<le> n \<le> 7\<close>.
\<close>

theorem updateBestFriendsCount_sends_clamped_count:
  fixes n :: int
  shows "(n < 3 \<longrightarrow> bestFriendsCount_params (Fin (of_int n)) w =
            [(''num_best_friends'', JNum (Fin 3)), (''username'', JStr (username (cl w)))])
       \<and> (7 < n \<longrightarrow> bestFriendsCount_params (Fin (of_int n)) w =
            [(''num_best_friends'', JNum (Fin 7)), (''username'', JStr (username (cl w)))])
       \<and> (3 \<le> n \<and> n \<le> 7 \<longrightarrow> bestFriendsCount_params (Fin (of_int n)) w =
            [(''num_best_friends'', JNum (Fin (of_int n))), (''username'', JStr (username (cl w)))])
       \<and> posts (snd (updateBestFriendsCount T parse (Fin (of_int n)) cb w)) =
            posts w @ [(account_setBestsCount, bestFriendsCount_params (Fin (of_int n)) w)]"
proof -
  let ?m = "if n < 3 then 3 else if 7 < n then 7 else n"
  have range: "- (2 ^ 31) \<le> ?m" "?m < 2 ^ 31"
    by simp_all
  have "bitor0 (clamp_count (Fin (of_int n))) = Fin (of_int ?m)"
    unfolding clamp_count_of_int using range by (rule bitor0_of_int)
  then have "bestFriendsCount_params (Fin (of_int n)) w =
      [(''num_best_friends'', JNum (Fin (of_int ?m))), (''username'', JStr (username (cl w)))]"
    by (simp add: bestFriendsCount_params_def)
  then show ?thesis
    by (simp add: posts_updateBestFriendsCount)
qed

theorem updateBestFriendsCount_sends_clamped_count_witness:
  "bestFriendsCount_params (Fin (of_int 1)) example_world =
     [(''num_best_friends'', JNum (Fin 3)), (''username'', JStr ''me'')]
   \<and> bestFriendsCount_params (Fin (of_int 9)) example_world =
     [(''num_best_friends'', JNum (Fin 7)), (''username'', JStr ''me'')]
   \<and> bestFriendsCount_params (Fin (of_int 5)) example_world =
     [(''num_best_friends'', JNum (Fin 5)), (''username'', JStr ''me'')]
   \<and> posts (snd (updateBestFriendsCount (example_transport ''{}'') example_parse
        (Fin (of_int 5)) (JFun 0) example_world)) =
     [(account_setBestsCount, [(''num_best_friends'', JNum (Fin 5)), (''username'', JStr ''me'')])]"
  using updateBestFriendsCount_sends_clamped_count [of 1 example_world]
    updateBestFriendsCount_sends_clamped_count [of 9 example_world]
    updateBestFriendsCount_sends_clamped_count
      [of 5 example_world "example_transport ''{}''" example_parse "JFun 0"]
  by (simp add: example_world_def)

subsection \<open>updateSnapPrivacy\<close>

lemma snapPrivacy_params_of_int:
  "snapPrivacy_params (Fin (of_int lvl)) w =
     [(''action'', JStr ''updatePrivacy''),
      (''privacySetting'', JNum (Fin (of_int (wrap32 (min lvl 1))))),
      (''username'', JStr (username (cl w)))]"
  by (simp add: snapPrivacy_params_def Math_min_of_int bitor0_def trunc_of_int del: Math_min.simps)

text \<open>
  Claim C5, as amended. For every integer \<open>lvl\<close>, \<^verbatim>\<open>updateSnapPrivacy(lvl)\<close> sends as
  \<^verbatim>\<open>privacySetting\<close> the minimum of \<open>lvl\<close> and 1 wrapped into the signed 32-bit range
  by \<^verbatim>\<open>| 0\<close>; this is the minimum itself exactly when \<open>lvl \<ge> -2^31\<close>. There is no lower
  clamp: 5 sends 1 and -3 sends -3. The callback receives the transport's answer as it
  is.
\<close>

theorem updateSnapPrivacy_sends_wrapped_min:
  fixes lvl :: int
  shows "snapPrivacy_params (Fin (of_int lvl)) w =
           [(''action'', JStr ''updatePrivacy''),
            (''privacySetting'', JNum (Fin (of_int (wrap32 (min lvl 1))))),
            (''username'', JStr (username (cl w)))]
       \<and> (snapPrivacy_params (Fin (of_int lvl)) w =
           [(''action'', JStr ''updatePrivacy''),
            (''privacySetting'', JNum (Fin (of_int (min lvl 1)))),
            (''username'', JStr (username (cl w)))]
          \<longleftrightarrow> - (2 ^ 31) \<le> lvl)
       \<and> updateSnapPrivacy T (Fin (of_int lvl)) cb w =
           (Called cb
              [err (T account_settings (snapPrivacy_params (Fin (of_int lvl)) w)),
               response (T account_settings (snapPrivacy_params (Fin (of_int lvl)) w)),
               JStr (body (T account_settings (snapPrivacy_params (Fin (of_int lvl)) w)))],
            w\<lparr>posts := posts w @ [(account_settings, snapPrivacy_params (Fin (of_int lvl)) w)]\<rparr>)"
proof (intro conjI)
  show sent: "snapPrivacy_params (Fin (of_int lvl)) w =
           [(''action'', JStr ''updatePrivacy''),
            (''privacySetting'', JNum (Fin (of_int (wrap32 (min lvl 1))))),
            (''username'', JStr (username (cl w)))]"
    by (rule snapPrivacy_params_of_int)
  have "wrap32 (min lvl 1) = min lvl 1 \<longleftrightarrow> - (2 ^ 31) \<le> lvl"
    unfolding wrap32_fixed_iff by auto
  then show "snapPrivacy_params (Fin (of_int lvl)) w =
           [(''action'', JStr ''updatePrivacy''),
            (''privacySetting'', JNum (Fin (of_int (min lvl 1)))),
            (''username'', JStr (username (cl w)))]
          \<longleftrightarrow> - (2 ^ 31) \<le> lvl"
    unfolding sent by simp
  show "updateSnapPrivacy T (Fin (of_int lvl)) cb w =
           (Called cb
              [err (T account_settings (snapPrivacy_params (Fin (of_int lvl)) w)),
               response (T account_settings (snapPrivacy_params (Fin (of_int lvl)) w)),
               JStr (body (T account_settings (snapPrivacy_params (Fin (of_int lvl)) w)))],
            w\<lparr>posts := posts w @ [(account_settings, snapPrivacy_params (Fin (of_int lvl)) w)]\<rparr>)"
    by (simp add: updateSnapPrivacy_def client_post_forward)
qed

theorem updateSnapPrivacy_sends_wrapped_min_witness:
  "- (2 ^ 31) \<le> (5 :: int) \<and> - (2 ^ 31) \<le> (- 3 :: int)
   \<and> snapPrivacy_params (Fin (of_int 5)) example_world =
     [(''action'', JStr ''updatePrivacy''), (''privacySetting'', JNum (Fin 1)),
      (''username'', JStr ''me'')]
   \<and> snapPrivacy_params (Fin (of_int (- 3))) example_world =
     [(''action'', JStr ''updatePrivacy''), (''privacySetting'', JNum (Fin (- 3))),
      (''username'', JStr ''me'')]"
  using updateSnapPrivacy_sends_wrapped_min [of 5 example_world, THEN conjunct2, THEN conjunct1]
    updateSnapPrivacy_sends_wrapped_min [of "- 3" example_world, THEN conjunct2, THEN conjunct1]
  by (simp add: example_world_def)

text \<open>
  The claim as written (the value sent is \<open>min lvl 1\<close> for every integer) fails below the
  32-bit range: \<open>-2147483649\<close> is sent as \<open>2147483647\<close>.
\<close>

theorem updateSnapPrivacy_below_int32_counterexample:
  "snapPrivacy_params (Fin (of_int (- 2147483649))) example_world =
     [(''action'', JStr ''updatePrivacy''), (''privacySetting'', JNum (Fin 2147483647)),
      (''username'', JStr ''me'')]
   \<and> min (- 2147483649) 1 \<noteq> (2147483647 :: int)"
  using snapPrivacy_params_of_int [of "- 2147483649" example_world]
  by (simp add: wrap32_def example_world_def)

subsection \<open>uploadAvatar\<close>

text \<open>
  Claim C2, as amended. For every input, \<^verbatim>\<open>uploadAvatar\<close> throws the error
  \<^verbatim>\<open>Account.uploadAvatar TODO\<close>: it calls no function (in particular not its callback),
  it is the same outcome for every input, no request is handed to the transport and the
  client is as it was.
\<close>

theorem uploadAvatar_throws:
  "fst (uploadAvatar T images cb w) = Threw ''Account.uploadAvatar TODO''
   \<and> (\<forall>f args. fst (uploadAvatar T images cb w) \<noteq> Called f args)
   \<and> snd (uploadAvatar T images cb w) = w
   \<and> posts (snd (uploadAvatar T images cb w)) = posts w"
  by (simp add: uploadAvatar_def)

theorem uploadAvatar_throws_witness:
  "fst (uploadAvatar (example_transport []) (JArr []) (JFun 0) example_world) =
     Threw ''Account.uploadAvatar TODO''
   \<and> posts (snd (uploadAvatar (example_transport []) (JArr []) (JFun 0) example_world)) = []"
  using uploadAvatar_throws [of "example_transport []" "JArr []" "JFun 0" example_world]
  by (simp add: example_world_def)

text \<open>
  The claim as written (the outcome reaches the caller through the callback) fails at
  every input, for instance at an empty array of images: the route throws.
\<close>

theorem uploadAvatar_callback_counterexample:
  "fst (uploadAvatar (example_transport []) (JArr []) (JFun 0) example_world) \<noteq>
     Called (JFun 0) [JStr ''NotImplemented'']
   \<and> fst (uploadAvatar (example_transport []) (JArr []) (JFun 0) example_world) =
     Threw ''Account.uploadAvatar TODO''"
  by (simp add: uploadAvatar_def)

subsection \<open>updateBestFriendsCount: the response\<close>

lemma updateBestFriendsCount_unfold:
  "updateBestFriendsCount T parse number cb w =
     bestFriendsCount_done parse cb
       (T account_setBestsCount (bestFriendsCount_params number w))
       (w\<lparr>posts := posts w @ [(account_setBestsCount, bestFriendsCount_params number w)]\<rparr>)"
  by (simp add: updateBestFriendsCount_def client_post_def)

lemma bestFriendsCount_done_failed_parse:
  "\<not> truthy (err r) \<Longrightarrow> parse (body r) = None \<Longrightarrow>
     bestFriendsCount_done parse cb r w = (Called cb [JStr parse_error], w)"
  by (simp add: bestFriendsCount_done_def tryParseJSON_def)

lemma bestFriendsCount_done_falsy:
  "\<not> truthy (err r) \<Longrightarrow> parse (body r) = Some v \<Longrightarrow> \<not> truthy v \<Longrightarrow>
     bestFriendsCount_done parse cb r w = (Called cb [JStr parse_error], w)"
  by (simp add: bestFriendsCount_done_def tryParseJSON_def)

lemma bestFriendsCount_done_truthy:
  "\<not> truthy (err r) \<Longrightarrow> parse (body r) = Some v \<Longrightarrow> truthy v \<Longrightarrow>
     bestFriendsCount_done parse cb r w =
       (Called cb [JNull], set_bestFriendUsernames (js_get v ''best_friends'') w)"
  by (simp add: bestFriendsCount_done_def tryParseJSON_def)

text \<open>
  Claim C3, as amended. When the transport reports no error and the body fails to parse
  as JSON (or parses to a falsy value), \<^verbatim>\<open>updateBestFriendsCount\<close> calls the callback
  with the parse error message, a truthy value that is not the transport's error value,
  and leaves the client as it was. When the body parses to an object that lacks
  \<^verbatim>\<open>best_friends\<close>, the route calls the callback with \<^verbatim>\<open>null\<close> (success) and
  stores \<^verbatim>\<open>undefined\<close> as \<^verbatim>\<open>bestFriendUsernames\<close>.
\<close>

theorem updateBestFriendsCount_parse_failure:
  assumes r: "r = T account_setBestsCount (bestFriendsCount_params number w)"
    and ok: "\<not> truthy (err r)"
  shows "(parse (body r) = None \<or> (\<exists>v. parse (body r) = Some v \<and> \<not> truthy v) \<longrightarrow>
            fst (updateBestFriendsCount T parse number cb w) = Called cb [JStr parse_error]
          \<and> truthy (JStr parse_error) \<and> JStr parse_error \<noteq> err r
          \<and> cl (snd (updateBestFriendsCount T parse number cb w)) = cl w)
       \<and> (\<forall>kvs. parse (body r) = Some (JObj kvs) \<and> map_of kvs ''best_friends'' = None \<longrightarrow>
            fst (updateBestFriendsCount T parse number cb w) = Called cb [JNull]
          \<and> bestFriendUsernames (currentSession (cl (snd (updateBestFriendsCount T parse number cb w)))) =
              JUndefined)"
proof (intro conjI impI allI)
  assume "parse (body r) = None \<or> (\<exists>v. parse (body r) = Some v \<and> \<not> truthy v)"
  then have handler: "bestFriendsCount_done parse cb r w' = (Called cb [JStr parse_error], w')" for w'
    using ok by (auto simp: bestFriendsCount_done_failed_parse bestFriendsCount_done_falsy)
  show "fst (updateBestFriendsCount T parse number cb w) = Called cb [JStr parse_error]"
    by (simp add: updateBestFriendsCount_unfold r [symmetric] handler)
  show "cl (snd (updateBestFriendsCount T parse number cb w)) = cl w"
    by (simp add: updateBestFriendsCount_unfold r [symmetric] handler)
  show t: "truthy (JStr parse_error)"
    by (simp add: parse_error_def)
  show "JStr parse_error \<noteq> err r"
    using ok t by (metis)
next
  fix kvs
  assume "parse (body r) = Some (JObj kvs) \<and> map_of kvs ''best_friends'' = None"
  then have handler: "bestFriendsCount_done parse cb r w' =
      (Called cb [JNull], set_bestFriendUsernames JUndefined w')" for w'
    using ok bestFriendsCount_done_truthy [of r parse "JObj kvs" cb w'] by simp
  show "fst (updateBestFriendsCount T parse number cb w) = Called cb [JNull]"
    by (simp add: updateBestFriendsCount_unfold r [symmetric] handler)
  show "bestFriendUsernames (currentSession (cl (snd (updateBestFriendsCount T parse number cb w)))) =
      JUndefined"
    by (simp add: updateBestFriendsCount_unfold r [symmetric] handler set_bestFriendUsernames_def)
qed


theorem updateBestFriendsCount_parse_failure_witness:
  "\<not> truthy (err (reply_ok ''<html>'')) \<and> example_parse (body (reply_ok ''<html>'')) = None
   \<and> example_parse (body (reply_ok ''{}'')) = Some (JObj [])
   \<and> fst (updateBestFriendsCount (example_transport ''<html>'') example_parse (Fin 5) (JFun 0)
          example_world) = Called (JFun 0) [JStr parse_error]
   \<and> cl (snd (updateBestFriendsCount (example_transport ''<html>'') example_parse (Fin 5) (JFun 0)
          example_world)) = cl example_world
   \<and> fst (updateBestFriendsCount (example_transport ''{}'') example_parse (Fin 5) (JFun 0)
          example_world) = Called (JFun 0) [JNull]
   \<and> bestFriendUsernames (currentSession (cl (snd
        (updateBestFriendsCount (example_transport ''{}'') example_parse (Fin 5) (JFun 0)
          example_world)))) = JUndefined"
proof -
  have bad: "example_parse ''<html>'' = None"
    by (simp add: example_parse_def best_friends_body_def)
  have empty: "example_parse ''{}'' = Some (JObj [])"
    by (simp add: example_parse_def best_friends_body_def)
  show ?thesis
    using updateBestFriendsCount_parse_failure
        [of "reply_ok ''<html>''" "example_transport ''<html>''" "Fin 5" example_world
          example_parse "JFun 0"]
      updateBestFriendsCount_parse_failure
        [of "reply_ok ''{}''" "example_transport ''{}''" "Fin 5" example_world
          example_parse "JFun 0"]
      bad empty
    by (simp add: example_transport_def reply_ok_def)
qed

text \<open>
  The claim as written (an object lacking the field is a parse failure) fails for the
  body \<^verbatim>\<open>{}\<close>: the transport succeeded, the body parses to an object without
  \<^verbatim>\<open>best_friends\<close>, and the callback is called with \<^verbatim>\<open>null\<close>, not with the parse
  error.
\<close>

theorem updateBestFriendsCount_missing_field_counterexample:
  "example_parse (body (example_transport ''{}'' account_setBestsCount
       (bestFriendsCount_params (Fin 5) example_world))) = Some (JObj [])
   \<and> map_of ([] :: (string \<times> jsval) list) ''best_friends'' = None
   \<and> \<not> truthy (err (example_transport ''{}'' account_setBestsCount
       (bestFriendsCount_params (Fin 5) example_world)))
   \<and> fst (updateBestFriendsCount (example_transport ''{}'') example_parse (Fin 5) (JFun 0)
          example_world) = Called (JFun 0) [JNull]
   \<and> Called (JFun 0) [JNull] \<noteq> Called (JFun 0) [JStr parse_error]"
  by (simp add: updateBestFriendsCount_unfold bestFriendsCount_done_def tryParseJSON_def
      example_transport_def reply_ok_def example_parse_def best_friends_body_def)

text \<open>
  Claim C6, as amended. When the transport reports no error and the body parses to an
  object with a \<^verbatim>\<open>best_friends\<close> field, \<^verbatim>\<open>bestFriendUsernames\<close> becomes exactly the
  value of that field, whatever count was requested, and the callback is called with
  \<^verbatim>\<open>null\<close>. When the body does not parse as JSON, the callback is called with the parse
  error and \<^verbatim>\<open>bestFriendUsernames\<close> (with the rest of the client) is unchanged. When the
  body parses to an object that lacks \<^verbatim>\<open>best_friends\<close>, the callback is called with
  \<^verbatim>\<open>null\<close> and \<^verbatim>\<open>bestFriendUsernames\<close> becomes \<^verbatim>\<open>undefined\<close>.
\<close>

theorem updateBestFriendsCount_replaces_cache:
  assumes r: "r = T account_setBestsCount (bestFriendsCount_params number w)"
    and ok: "\<not> truthy (err r)"
  shows "(\<forall>kvs v. parse (body r) = Some (JObj kvs) \<and> map_of kvs ''best_friends'' = Some v \<longrightarrow>
            fst (updateBestFriendsCount T parse number cb w) = Called cb [JNull]
          \<and> bestFriendUsernames (currentSession (cl (snd (updateBestFriendsCount T parse number cb w)))) = v
          \<and> username (cl (snd (updateBestFriendsCount T parse number cb w))) = username (cl w))
       \<and> (parse (body r) = None \<longrightarrow>
            fst (updateBestFriendsCount T parse number cb w) = Called cb [JStr parse_error]
          \<and> bestFriendUsernames (currentSession (cl (snd (updateBestFriendsCount T parse number cb w)))) =
              bestFriendUsernames (currentSession (cl w))
          \<and> cl (snd (updateBestFriendsCount T parse number cb w)) = cl w)
       \<and> (\<forall>kvs. parse (body r) = Some (JObj kvs) \<and> map_of kvs ''best_friends'' = None \<longrightarrow>
            fst (updateBestFriendsCount T parse number cb w) = Called cb [JNull]
          \<and> bestFriendUsernames (currentSession (cl (snd (updateBestFriendsCount T parse number cb w)))) =
              JUndefined)"
proof (intro conjI impI allI)
  fix kvs v
  assume "parse (body r) = Some (JObj kvs) \<and> map_of kvs ''best_friends'' = Some v"
  then have handler: "bestFriendsCount_done parse cb r w' =
      (Called cb [JNull], set_bestFriendUsernames v w')" for w'
    using ok bestFriendsCount_done_truthy [of r parse "JObj kvs" cb w'] by simp
  show "fst (updateBestFriendsCount T parse number cb w) = Called cb [JNull]"
    by (simp add: updateBestFriendsCount_unfold r [symmetric] handler)
  show "bestFriendUsernames (currentSession (cl (snd (updateBestFriendsCount T parse number cb w)))) = v"
    by (simp add: updateBestFriendsCount_unfold r [symmetric] handler set_bestFriendUsernames_def)
  show "username (cl (snd (updateBestFriendsCount T parse number cb w))) = username (cl w)"
    by (simp add: updateBestFriendsCount_unfold r [symmetric] handler set_bestFriendUsernames_def)
next
  assume "parse (body r) = None"
  then have handler: "bestFriendsCount_done parse cb r w' = (Called cb [JStr parse_error], w')" for w'
    using ok by (simp add: bestFriendsCount_done_failed_parse)
  show "fst (updateBestFriendsCount T parse number cb w) = Called cb [JStr parse_error]"
    by (simp add: updateBestFriendsCount_unfold r [symmetric] handler)
  show cl: "cl (snd (updateBestFriendsCount T parse number cb w)) = cl w"
    by (simp add: updateBestFriendsCount_unfold r [symmetric] handler)
  show "bestFriendUsernames (currentSession (cl (snd (updateBestFriendsCount T parse number cb w)))) =
      bestFriendUsernames (currentSession (cl w))"
    by (simp add: cl)
next
  fix kvs
  assume "parse (body r) = Some (JObj kvs) \<and> map_of kvs ''best_friends'' = None"
  then have handler: "bestFriendsCount_done parse cb r w' =
      (Called cb [JNull], set_bestFriendUsernames JUndefined w')" for w'
    using ok bestFriendsCount_done_truthy [of r parse "JObj kvs" cb w'] by simp
  show "fst (updateBestFriendsCount T parse number cb w) = Called cb [JNull]"
    by (simp add: updateBestFriendsCount_unfold r [symmetric] handler)
  show "bestFriendUsernames (currentSession (cl (snd (updateBestFriendsCount T parse number cb w)))) =
      JUndefined"
    by (simp add: updateBestFriendsCount_unfold r [symmetric] handler set_bestFriendUsernames_def)
qed

theorem updateBestFriendsCount_replaces_cache_witness:
  "\<not> truthy (err (reply_ok best_friends_body))
   \<and> example_parse (body (reply_ok best_friends_body)) =
       Some (JObj [(''best_friends'', JArr [JStr ''x'', JStr ''y'', JStr ''z''])])
   \<and> example_parse (body (reply_ok ''<html>'')) = None
   \<and> fst (updateBestFriendsCount (example_transport best_friends_body) example_parse (Fin 1) (JFun 0)
          example_world) = Called (JFun 0) [JNull]
   \<and> bestFriendUsernames (currentSession (cl (snd
        (updateBestFriendsCount (example_transport best_friends_body) example_parse (Fin 1) (JFun 0)
          example_world)))) = JArr [JStr ''x'', JStr ''y'', JStr ''z'']
   \<and> fst (updateBestFriendsCount (example_transport ''<html>'') example_parse (Fin 1) (JFun 0)
          example_world) = Called (JFun 0) [JStr parse_error]
   \<and> bestFriendUsernames (currentSession (cl (snd
        (updateBestFriendsCount (example_transport ''<html>'') example_parse (Fin 1) (JFun 0)
          example_world)))) = JArr [JStr ''ann'', JStr ''ben'', JStr ''cat'']
   \<and> example_parse (body (reply_ok ''{}'')) = Some (JObj [])
   \<and> bestFriendUsernames (currentSession (cl (snd
        (updateBestFriendsCount (example_transport ''{}'') example_parse (Fin 1) (JFun 0)
          example_world)))) = JUndefined"
proof -
  have bad: "example_parse ''<html>'' = None"
    by (simp add: example_parse_def best_friends_body_def)
  have good: "example_parse best_friends_body =
      Some (JObj [(''best_friends'', JArr [JStr ''x'', JStr ''y'', JStr ''z''])])"
    by (simp add: example_parse_def)
  have empty: "example_parse ''{}'' = Some (JObj [])"
    by (simp add: example_parse_def best_friends_body_def)
  show ?thesis
    using updateBestFriendsCount_replaces_cache
        [of "reply_ok best_friends_body" "example_transport best_friends_body" "Fin 1"
          example_world example_parse "JFun 0"]
      updateBestFriendsCount_replaces_cache
        [of "reply_ok ''<html>''" "example_transport ''<html>''" "Fin 1" example_world
          example_parse "JFun 0"]
      updateBestFriendsCount_replaces_cache
        [of "reply_ok ''{}''" "example_transport ''{}''" "Fin 1" example_world
          example_parse "JFun 0"]
      bad good empty
    by (simp add: example_transport_def reply_ok_def example_world_def example_session_def)
qed

text \<open>
  The claim as written (a body without the expected field leaves the cache untouched and
  is reported as a parse failure) fails for the body \<^verbatim>\<open>{}\<close>: the transport succeeded,
  the body parses to an object without \<^verbatim>\<open>best_friends\<close>, the cached list of three names
  is overwritten with \<^verbatim>\<open>undefined\<close>, and the callback is called with \<^verbatim>\<open>null\<close>.
\<close>

theorem updateBestFriendsCount_cache_overwritten_counterexample:
  "\<not> truthy (err (example_transport ''{}'' account_setBestsCount
       (bestFriendsCount_params (Fin 4) example_world)))
   \<and> example_parse (body (example_transport ''{}'' account_setBestsCount
       (bestFriendsCount_params (Fin 4) example_world))) = Some (JObj [])
   \<and> js_get (JObj []) ''best_friends'' = JUndefined
   \<and> bestFriendUsernames (currentSession (cl example_world)) =
       JArr [JStr ''ann'', JStr ''ben'', JStr ''cat'']
   \<and> bestFriendUsernames (currentSession (cl (snd
        (updateBestFriendsCount (example_transport ''{}'') example_parse (Fin 4) (JFun 0)
          example_world)))) = JUndefined
   \<and> fst (updateBestFriendsCount (example_transport ''{}'') example_parse (Fin 4) (JFun 0)
          example_world) = Called (JFun 0) [JNull]
   \<and> Called (JFun 0) [JNull] \<noteq> Called (JFun 0) [JStr parse_error]"
  by (simp add: updateBestFriendsCount_unfold bestFriendsCount_done_def tryParseJSON_def
      set_bestFriendUsernames_def example_transport_def reply_ok_def example_parse_def
      best_friends_body_def example_world_def example_session_def)

subsection \<open>downloadSnaptag and downloadAvatar\<close>

text \<open>
  Claim C7. When the transport reports no error, \<^verbatim>\<open>downloadSnaptag\<close> calls the
  callback with \<^verbatim>\<open>null\<close> and a blob holding exactly the bytes of the body (no decoder
  is involved: the route does not take one), and \<^verbatim>\<open>downloadAvatar\<close> hands the bytes of
  the body and the callback to \<^verbatim>\<open>SKBlob.decompress\<close>, whose outcome is the route's.
  When the transport reports an error, both routes call the callback with that error.
\<close>

theorem downloads_wrap_or_decode:
  assumes s: "rs = T account_snaptag (snaptag_params w)"
    and a: "ra = T account_avatar_get (avatar_params user w)"
  shows "(\<not> truthy (err rs) \<longrightarrow>
            downloadSnaptag T cb w =
              (Called cb [JNull, JBlob (body rs)],
               w\<lparr>posts := posts w @ [(account_snaptag, snaptag_params w)]\<rparr>))
       \<and> (\<not> truthy (err ra) \<longrightarrow>
            downloadAvatar T decompress user cb w =
              (decompress (body ra) cb,
               w\<lparr>posts := posts w @ [(account_avatar_get, avatar_params user w)]\<rparr>))
       \<and> (truthy (err rs) \<longrightarrow>
            downloadSnaptag T cb w =
              (Called cb [err rs],
               w\<lparr>posts := posts w @ [(account_snaptag, snaptag_params w)]\<rparr>))
       \<and> (truthy (err ra) \<longrightarrow>
            downloadAvatar T decompress user cb w =
              (Called cb [err ra],
               w\<lparr>posts := posts w @ [(account_avatar_get, avatar_params user w)]\<rparr>))"
  by (simp add: downloadSnaptag_def downloadAvatar_def client_post_def snaptag_done_def
      avatar_done_def new_Buffer_def s a)

theorem downloads_wrap_or_decode_witness:
  "\<not> truthy (err (example_transport ''<svg/>'' account_snaptag (snaptag_params example_world)))
   \<and> \<not> truthy (err (example_transport ''abc'' account_avatar_get
         (avatar_params (JStr ''ann'') example_world)))
   \<and> fst (downloadSnaptag (example_transport ''<svg/>'') (JFun 0) example_world) =
     Called (JFun 0) [JNull, JBlob ''<svg/>'']
   \<and> fst (downloadAvatar (example_transport ''abc'') example_decoder (JStr ''ann'') (JFun 0)
          example_world) = Called (JFun 0) [JNull, JBlob ''cba'']"
  using downloads_wrap_or_decode
      [of "reply_ok ''<svg/>''" "example_transport ''<svg/>''" example_world
        "reply_ok ''<svg/>''" "JStr ''ann''" "JFun 0"]
    downloads_wrap_or_decode
      [of "reply_ok ''abc''" "example_transport ''abc''" example_world
        "reply_ok ''abc''" "JStr ''ann''" "JFun 0" example_decoder]
  by (simp add: example_transport_def reply_ok_def example_decoder_def)

subsection \<open>The single-field setters\<close>

lemma forwarded_client: "cl (snd (client_post T ep ps (forward cb) w)) = cl w"
  by (simp add: client_post_forward)

text \<open>
  Claim C9. \<^verbatim>\<open>updateEmail\<close>, \<^verbatim>\<open>updateSearchableByNumber\<close>,
  \<^verbatim>\<open>updateNotificationSoundSetting\<close> and \<^verbatim>\<open>updateTOSAgreementStatus\<close> each hand the
  transport one request and their callback, which receives the transport's answer as it
  is; the client (user name and every field of the session) is unchanged.
  \<^verbatim>\<open>updateSearchableByNumber\<close> sends the truthiness of its input as a boolean,
  \<^verbatim>\<open>updateNotificationSoundSetting\<close> sends \<^verbatim>\<open>"ON"\<close> for \<^verbatim>\<open>true\<close> and \<^verbatim>\<open>"OFF"\<close> for
  \<^verbatim>\<open>false\<close>, and \<^verbatim>\<open>updateTOSAgreementStatus\<close> sends each of its three booleans as the
  string \<^verbatim>\<open>"true"\<close> or \<^verbatim>\<open>"false"\<close>.
\<close>

theorem setters_forward_transport_outcome:
  assumes e: "re = T account_settings (email_params address w)"
    and s: "rs = T account_settings (searchable_params searchable w)"
    and n: "rn = T account_settings (notificationSound_params enableSound w)"
    and t: "rt = T update_user (TOSAgreement_params snapcash snapcashV2 square w)"
  shows "updateEmail T address cb w =
           (Called cb [err re, response re, JStr (body re)],
            w\<lparr>posts := posts w @ [(account_settings, email_params address w)]\<rparr>)
       \<and> updateSearchableByNumber T searchable cb w =
           (Called cb [err rs, response rs, JStr (body rs)],
            w\<lparr>posts := posts w @ [(account_settings, searchable_params searchable w)]\<rparr>)
       \<and> updateNotificationSoundSetting T enableSound cb w =
           (Called cb [err rn, response rn, JStr (body rn)],
            w\<lparr>posts := posts w @ [(account_settings, notificationSound_params enableSound w)]\<rparr>)
       \<and> updateTOSAgreementStatus T snapcash snapcashV2 square cb w =
           (Called cb [err rt, response rt, JStr (body rt)],
            w\<lparr>posts := posts w @
              [(update_user, TOSAgreement_params snapcash snapcashV2 square w)]\<rparr>)
       \<and> cl (snd (updateEmail T address cb w)) = cl w
       \<and> cl (snd (updateSearchableByNumber T searchable cb w)) = cl w
       \<and> cl (snd (updateNotificationSoundSetting T enableSound cb w)) = cl w
       \<and> cl (snd (updateTOSAgreementStatus T snapcash snapcashV2 square cb w)) = cl w
       \<and> searchable_params searchable w =
           [(''action'', JStr ''updateSearchableByPhoneNumber''),
            (''searchable'', JBool (truthy searchable)),
            (''username'', JStr (username (cl w)))]
       \<and> notificationSound_params (JBool True) w =
           [(''action'', JStr ''updateNotificationSoundSetting''),
            (''notificationSoundSetting'', JStr ''ON''),
            (''username'', JStr (username (cl w)))]
       \<and> notificationSound_params (JBool False) w =
           [(''action'', JStr ''updateNotificationSoundSetting''),
            (''notificationSoundSetting'', JStr ''OFF''),
            (''username'', JStr (username (cl w)))]
       \<and> TOSAgreement_params (JBool a) (JBool b) (JBool c) w =
           [(''username'', JStr (username (cl w))),
            (''agreements'', JObj
               [(''snapcash_new_tos_accepted'', JStr (if a then ''true'' else ''false'')),
                (''snapcash_tos_v2_accepted'', JStr (if b then ''true'' else ''false'')),
                (''square_tos_accepted'', JStr (if c then ''true'' else ''false''))])]"
proof (intro conjI)
  show "updateEmail T address cb w =
      (Called cb [err re, response re, JStr (body re)],
       w\<lparr>posts := posts w @ [(account_settings, email_params address w)]\<rparr>)"
    by (simp add: updateEmail_def client_post_forward e)
  show "updateSearchableByNumber T searchable cb w =
      (Called cb [err rs, response rs, JStr (body rs)],
       w\<lparr>posts := posts w @ [(account_settings, searchable_params searchable w)]\<rparr>)"
    by (simp add: updateSearchableByNumber_def client_post_forward s)
  show "updateNotificationSoundSetting T enableSound cb w =
      (Called cb [err rn, response rn, JStr (body rn)],
       w\<lparr>posts := posts w @ [(account_settings, notificationSound_params enableSound w)]\<rparr>)"
    by (simp add: updateNotificationSoundSetting_def client_post_forward n)
  show "updateTOSAgreementStatus T snapcash snapcashV2 square cb w =
      (Called cb [err rt, response rt, JStr (body rt)],
       w\<lparr>posts := posts w @
         [(update_user, TOSAgreement_params snapcash snapcashV2 square w)]\<rparr>)"
    by (simp add: updateTOSAgreementStatus_def client_post_forward t)
  show "cl (snd (updateEmail T address cb w)) = cl w"
    by (simp add: updateEmail_def forwarded_client)
  show "cl (snd (updateSearchableByNumber T searchable cb w)) = cl w"
    by (simp add: updateSearchableByNumber_def forwarded_client)
  show "cl (snd (updateNotificationSoundSetting T enableSound cb w)) = cl w"
    by (simp add: updateNotificationSoundSetting_def forwarded_client)
  show "cl (snd (updateTOSAgreementStatus T snapcash snapcashV2 square cb w)) = cl w"
    by (simp add: updateTOSAgreementStatus_def forwarded_client)
  show "searchable_params searchable w =
      [(''action'', JStr ''updateSearchableByPhoneNumber''),
       (''searchable'', JBool (truthy searchable)),
       (''username'', JStr (username (cl w)))]"
    by (simp add: searchable_params_def)
  show "notificationSound_params (JBool True) w =
      [(''action'', JStr ''updateNotificationSoundSetting''),
       (''notificationSoundSetting'', JStr ''ON''),
       (''username'', JStr (username (cl w)))]"
    by (simp add: notificationSound_params_def)
  show "notificationSound_params (JBool False) w =
      [(''action'', JStr ''updateNotificationSoundSetting''),
       (''notificationSoundSetting'', JStr ''OFF''),
       (''username'', JStr (username (cl w)))]"
    by (simp add: notificationSound_params_def)
  show "TOSAgreement_params (JBool a) (JBool b) (JBool c) w =
      [(''username'', JStr (username (cl w))),
       (''agreements'', JObj
          [(''snapcash_new_tos_accepted'', JStr (if a then ''true'' else ''false'')),
           (''snapcash_tos_v2_accepted'', JStr (if b then ''true'' else ''false'')),
           (''square_tos_accepted'', JStr (if c then ''true'' else ''false''))])]"
    by (simp add: TOSAgreement_params_def)
qed

theorem setters_forward_transport_outcome_witness:
  "updateEmail (\<lambda>ep ps. reply_failed) (JStr ''me@example.org'') (JFun 0) example_world =
     (Called (JFun 0) [JStr ''ECONNRESET'', JUndefined, JStr []],
      example_world\<lparr>posts :=
        [(account_settings,
          [(''action'', JStr ''updateEmail''), (''email'', JStr ''me@example.org''),
           (''username'', JStr ''me'')])]\<rparr>)
   \<and> fst (updateSearchableByNumber (example_transport ''ok'') (JNum (Fin 1)) (JFun 0) example_world) =
     Called (JFun 0) [JNull, JObj [(''statusCode'', JNum (Fin 200))], JStr ''ok'']
   \<and> searchable_params (JNum (Fin 1)) example_world =
     [(''action'', JStr ''updateSearchableByPhoneNumber''), (''searchable'', JBool True),
      (''username'', JStr ''me'')]
   \<and> TOSAgreement_params (JBool True) (JBool False) (JBool True) example_world =
     [(''username'', JStr ''me''),
      (''agreements'', JObj
         [(''snapcash_new_tos_accepted'', JStr ''true''),
          (''snapcash_tos_v2_accepted'', JStr ''false''),
          (''square_tos_accepted'', JStr ''true'')])]"
  using setters_forward_transport_outcome
      [of reply_failed "\<lambda>ep ps. reply_failed" "JStr ''me@example.org''" example_world
        reply_failed "JNum (Fin 1)" reply_failed JNull reply_failed JNull JNull JNull
        "JFun 0" True False True]
    setters_forward_transport_outcome
      [of "reply_ok ''ok''" "example_transport ''ok''" JNull example_world
        "reply_ok ''ok''" "JNum (Fin 1)" "reply_ok ''ok''" JNull "reply_ok ''ok''" JNull JNull JNull
        "JFun 0" True False True]
  by (simp add: example_transport_def reply_ok_def reply_failed_def example_world_def
      email_params_def)

subsection \<open>updateStoryPrivacy\<close>

lemma storyPrivacy_params_no_list:
  "\<not> truthy (friends_value friends) \<Longrightarrow>
     storyPrivacy_params L privacy friends w =
       [(''action'', JStr ''updateStoryPrivacy''),
        (''privacySetting'', L (ToInt32 privacy)),
        (''username'', JStr (username (cl w)))]"
  by (simp add: storyPrivacy_params_def)

lemma storyPrivacy_params_list:
  "storyPrivacy_params L privacy (FriendsList xs) w =
     [(''action'', JStr ''updateStoryPrivacy''),
      (''privacySetting'', L (ToInt32 privacy)),
      (''username'', JStr (username (cl w))),
      (''storyFriendsToBlock'', JStr (stringify_strings xs))]"
  by (simp add: storyPrivacy_params_def)

lemma updateStoryPrivacy_not_function:
  "\<not> is_function friends \<Longrightarrow>
     updateStoryPrivacy T L privacy friends cb w =
       client_post T account_settings (storyPrivacy_params L privacy friends w) (forward cb) w"
  by (simp add: updateStoryPrivacy_def shift_args_def)

lemma updateStoryPrivacy_function:
  "updateStoryPrivacy T L privacy (FriendsFun f) cb w =
     client_post T account_settings (storyPrivacy_params L privacy FriendsNull w)
       (forward (JFun f)) w"
  by (simp add: updateStoryPrivacy_def shift_args_def)

text \<open>
  Claim C10. When the second argument of \<^verbatim>\<open>updateStoryPrivacy\<close> is a function, the
  route behaves as \<^verbatim>\<open>updateStoryPrivacy(level, null, thatFunction)\<close> whatever the third
  argument is: that function is the callback the transport's answer goes to, the request
  has no \<^verbatim>\<open>storyFriendsToBlock\<close>, and the label sent is the one of the level after
  \<^verbatim>\<open>| 0\<close>.
\<close>

theorem updateStoryPrivacy_callback_in_second_place:
  "updateStoryPrivacy T L privacy (FriendsFun f) cb w =
     updateStoryPrivacy T L privacy FriendsNull (JFun f) w
   \<and> updateStoryPrivacy T L privacy (FriendsFun f) cb w =
     (Called (JFun f)
        [err (T account_settings (storyPrivacy_params L privacy FriendsNull w)),
         response (T account_settings (storyPrivacy_params L privacy FriendsNull w)),
         JStr (body (T account_settings (storyPrivacy_params L privacy FriendsNull w)))],
      w\<lparr>posts := posts w @
        [(account_settings, storyPrivacy_params L privacy FriendsNull w)]\<rparr>)
   \<and> storyPrivacy_params L privacy FriendsNull w =
       [(''action'', JStr ''updateStoryPrivacy''),
        (''privacySetting'', L (ToInt32 privacy)),
        (''username'', JStr (username (cl w)))]"
  by (simp add: updateStoryPrivacy_function updateStoryPrivacy_not_function
      storyPrivacy_params_no_list client_post_forward)

theorem updateStoryPrivacy_callback_in_second_place_witness:
  "updateStoryPrivacy (example_transport ''ok'') example_labels (Fin (5 / 2)) (FriendsFun 7)
     JUndefined example_world =
   (Called (JFun 7) [JNull, JObj [(''statusCode'', JNum (Fin 200))], JStr ''ok''],
    example_world\<lparr>posts :=
      [(account_settings,
        [(''action'', JStr ''updateStoryPrivacy''), (''privacySetting'', JStr ''CUSTOM''),
         (''username'', JStr ''me'')])]\<rparr>)"
proof -
  have level: "wrap32 (trunc (5 / 2)) = 2"
    by (simp add: trunc_def wrap32_def floor_eq_iff)
  note run = updateStoryPrivacy_callback_in_second_place
    [of "example_transport ''ok''" example_labels "Fin (5 / 2)" 7 JUndefined example_world]
  show ?thesis
    unfolding run [THEN conjunct2, THEN conjunct1] run [THEN conjunct2, THEN conjunct2]
    by (simp add: level example_transport_def reply_ok_def example_world_def example_labels_def)
qed

subsection \<open>JSON text read back\<close>

lemma hex_value_hex_digit: "n < 16 \<Longrightarrow> hex_value (hex_digit n) = Some n"
  by (auto simp: hex_value_def hex_digit_def Let_def)

lemma scan_hex_escape:
  assumes "(of_char c :: nat) < 32"
  shows "scan (InStr s)
           ([CHR 0x5C, CHR ''u'', CHR ''0'', CHR ''0'',
             hex_digit ((of_char c :: nat) div 16), hex_digit ((of_char c :: nat) mod 16)] @ rest) =
         scan (InStr (s @ [c])) rest"
proof -
  let ?n = "of_char c :: nat"
  have hi: "hex_value (hex_digit (?n div 16)) = Some (?n div 16)"
    using assms by (intro hex_value_hex_digit) simp
  have lo: "hex_value (hex_digit (?n mod 16)) = Some (?n mod 16)"
    by (intro hex_value_hex_digit) simp
  have zero: "hex_value CHR ''0'' = Some 0"
    by (simp add: hex_value_def)
  have small: "?n div 16 * 16 + ?n mod 16 < 256"
    using assms by simp
  show ?thesis
    using small by (simp add: hi lo zero)
qed

lemma scan_short_escape:
  "unescape e = Some c \<Longrightarrow> e \<noteq> CHR ''u'' \<Longrightarrow>
     scan (InStr s) ([CHR 0x5C, e] @ rest) = scan (InStr (s @ [c])) rest"
  by simp

lemma scan_plain_char:
  "c \<noteq> CHR 0x22 \<Longrightarrow> c \<noteq> CHR 0x5C \<Longrightarrow>
     scan (InStr s) ([c] @ rest) = scan (InStr (s @ [c])) rest"
  by simp

lemma scan_escape: "scan (InStr s) (json_escape c @ rest) = scan (InStr (s @ [c])) rest"
proof -
  consider (quote) "c = CHR 0x22" | (backslash) "c = CHR 0x5C" | (b) "c = CHR 0x08"
    | (f) "c = CHR 0x0C" | (n) "c = CHR 0x0A" | (r) "c = CHR 0x0D" | (t) "c = CHR 0x09"
    | (control) "c \<notin> {CHR 0x22, CHR 0x5C, CHR 0x08, CHR 0x0C, CHR 0x0A, CHR 0x0D, CHR 0x09}"
        "(of_char c :: nat) < 32"
    | (plain) "c \<notin> {CHR 0x22, CHR 0x5C, CHR 0x08, CHR 0x0C, CHR 0x0A, CHR 0x0D, CHR 0x09}"
        "\<not> (of_char c :: nat) < 32"
    by blast
  then show ?thesis
  proof cases
    case quote
    then have "json_escape c = [CHR 0x5C, CHR 0x22]"
      by (simp add: json_escape_def)
    then show ?thesis
      using quote scan_short_escape [of "CHR 0x22" c s rest] by (simp add: unescape_def)
  next
    case backslash
    then have "json_escape c = [CHR 0x5C, CHR 0x5C]"
      by (simp add: json_escape_def)
    then show ?thesis
      using backslash scan_short_escape [of "CHR 0x5C" c s rest] by (simp add: unescape_def)
  next
    case b
    then have "json_escape c = [CHR 0x5C, CHR ''b'']"
      by (simp add: json_escape_def)
    then show ?thesis
      using b scan_short_escape [of "CHR ''b''" c s rest] by (simp add: unescape_def)
  next
    case f
    then have "json_escape c = [CHR 0x5C, CHR ''f'']"
      by (simp add: json_escape_def)
    then show ?thesis
      using f scan_short_escape [of "CHR ''f''" c s rest] by (simp add: unescape_def)
  next
    case n
    then have "json_escape c = [CHR 0x5C, CHR ''n'']"
      by (simp add: json_escape_def)
    then show ?thesis
      using n scan_short_escape [of "CHR ''n''" c s rest] by (simp add: unescape_def)
  next
    case r
    then have "json_escape c = [CHR 0x5C, CHR ''r'']"
      by (simp add: json_escape_def)
    then show ?thesis
      using r scan_short_escape [of "CHR ''r''" c s rest] by (simp add: unescape_def)
  next
    case t
    then have "json_escape c = [CHR 0x5C, CHR ''t'']"
      by (simp add: json_escape_def)
    then show ?thesis
      using t scan_short_escape [of "CHR ''t''" c s rest] by (simp add: unescape_def)
  next
    case control
    then have "json_escape c =
        [CHR 0x5C, CHR ''u'', CHR ''0'', CHR ''0'',
         hex_digit ((of_char c :: nat) div 16), hex_digit ((of_char c :: nat) mod 16)]"
      by (simp add: json_escape_def)
    then show ?thesis
      using control(2) scan_hex_escape [of c s rest] by simp
  next
    case plain
    then have "json_escape c = [c]"
      by (simp add: json_escape_def)
    then show ?thesis
      using plain(1) scan_plain_char [of c s rest] by simp
  qed
qed

lemma scan_escaped:
  "scan (InStr s) (concat (map json_escape t) @ rest) = scan (InStr (s @ t)) rest"
  by (induction t arbitrary: s) (simp_all add: scan_escape)

lemma scan_quote: "scan Plain (json_quote t @ rest) = emit (TStr t) (scan Plain rest)"
  by (simp add: json_quote_def scan_escaped)

lemma scan_items:
  "\<exists>toks. scan Plain (join '','' (map json_quote (x # xs)) @ '']'') = Some toks
     \<and> items toks = Some (x # xs)"
proof (induction xs arbitrary: x)
  case Nil
  show ?case
    by (simp add: scan_quote emit_def is_letter_def)
next
  case (Cons y ys)
  from Cons.IH [of y] obtain toks
    where toks: "scan Plain (join '','' (map json_quote (y # ys)) @ '']'') = Some toks"
      and its: "items toks = Some (y # ys)"
    by blast
  have "scan Plain (join '','' (map json_quote (x # y # ys)) @ '']'') =
      Some (TStr x # TChar CHR '','' # toks)"
    using toks by (simp add: scan_quote emit_def is_letter_def)
  moreover have "items (TStr x # TChar CHR '','' # toks) = Some (x # y # ys)"
    using its by simp
  ultimately show ?case
    by blast
qed

lemma parse_stringify_strings: "parse_strings (stringify_strings xs) = Some xs"
proof (cases xs)
  case Nil
  then show ?thesis
    by (simp add: parse_strings_def stringify_strings_def is_letter_def emit_def)
next
  case (Cons x ys)
  from scan_items [of x ys] obtain toks
    where toks: "scan Plain (join '','' (map json_quote (x # ys)) @ '']'') = Some toks"
      and its: "items toks = Some (x # ys)"
    by blast
  have "toks \<noteq> [TChar CHR '']'']"
    using its by auto
  then show ?thesis
    using toks its Cons
    by (simp add: parse_strings_def stringify_strings_def is_letter_def emit_def)
qed


lemma scan_member:
  "d = CHR '','' \<or> d = CHR ''}'' \<Longrightarrow>
     scan Plain (stringify_member (k, b) @ d # rest) =
       emit (TStr k) (emit (TChar CHR '':'')
         (emit (TWord (if b then ''true'' else ''false'')) (emit (TChar d) (scan Plain rest))))"
  by (auto simp: stringify_member_def scan_quote is_letter_def)


lemma scan_members:
  "\<exists>toks. scan Plain (join '','' (map stringify_member (kv # kvs)) @ ''}'') = Some toks
     \<and> members toks = Some (kv # kvs)"
proof (induction kvs arbitrary: kv)
  case Nil
  obtain k b where kv: "kv = (k, b)"
    by (cases kv)
  show ?case
    using scan_member [of "CHR ''}''" k b "[]"] by (auto simp: kv emit_def)
next
  case (Cons y ys)
  obtain k b where kv: "kv = (k, b)"
    by (cases kv)
  from Cons.IH [of y] obtain toks
    where toks: "scan Plain (join '','' (map stringify_member (y # ys)) @ ''}'') = Some toks"
      and mem: "members toks = Some (y # ys)"
    by blast
  have "scan Plain (join '','' (map stringify_member (kv # y # ys)) @ ''}'') =
      Some (TStr k # TChar CHR '':'' # TWord (if b then ''true'' else ''false'') #
        TChar CHR '','' # toks)"
    using scan_member [of "CHR '',''" k b "join '','' (map stringify_member (y # ys)) @ ''}''"] toks
    by (simp add: kv emit_def)
  moreover have "members (TStr k # TChar CHR '':'' # TWord (if b then ''true'' else ''false'') #
        TChar CHR '','' # toks) = Some (kv # y # ys)"
    using mem by (simp add: kv)
  ultimately show ?case
    by blast
qed

lemma parse_stringify_flags: "parse_flags (stringify_flags kvs) = Some kvs"
proof (cases kvs)
  case Nil
  then show ?thesis
    by (simp add: parse_flags_def stringify_flags_def is_letter_def emit_def)
next
  case (Cons kv rest)
  from scan_members [of kv rest] obtain toks
    where toks: "scan Plain (join '','' (map stringify_member (kv # rest)) @ ''}'') = Some toks"
      and mem: "members toks = Some (kv # rest)"
    by blast
  have "toks \<noteq> [TChar CHR ''}'']"
    using mem by auto
  then show ?thesis
    using toks mem Cons
    by (simp add: parse_flags_def stringify_flags_def is_letter_def emit_def)
qed

subsection \<open>updateStoryPrivacy: the block list\<close>

text \<open>
  Claim C8. For every privacy level and every block list, \<^verbatim>\<open>updateStoryPrivacy\<close> called
  with a list sends as \<^verbatim>\<open>storyFriendsToBlock\<close> the JSON text of the array of the user
  names, and reading that text back gives the same names in the same order. Called with
  \<^verbatim>\<open>null\<close> or \<^verbatim>\<open>undefined\<close> in the place of the list, it sends a request without a
  \<^verbatim>\<open>storyFriendsToBlock\<close> parameter. In each case the request goes to the transport with
  the callback.
\<close>

theorem updateStoryPrivacy_block_list:
  "storyPrivacy_params L privacy (FriendsList xs) w =
     [(''action'', JStr ''updateStoryPrivacy''),
      (''privacySetting'', L (ToInt32 privacy)),
      (''username'', JStr (username (cl w))),
      (''storyFriendsToBlock'', JStr (stringify_strings xs))]
   \<and> parse_strings (stringify_strings xs) = Some xs
   \<and> storyPrivacy_params L privacy FriendsNull w =
     [(''action'', JStr ''updateStoryPrivacy''),
      (''privacySetting'', L (ToInt32 privacy)),
      (''username'', JStr (username (cl w)))]
   \<and> storyPrivacy_params L privacy FriendsUndefined w =
     [(''action'', JStr ''updateStoryPrivacy''),
      (''privacySetting'', L (ToInt32 privacy)),
      (''username'', JStr (username (cl w)))]
   \<and> map_of (storyPrivacy_params L privacy FriendsNull w) ''storyFriendsToBlock'' = None
   \<and> map_of (storyPrivacy_params L privacy FriendsUndefined w) ''storyFriendsToBlock'' = None
   \<and> (\<not> is_function friends \<longrightarrow>
        updateStoryPrivacy T L privacy friends cb w =
          (Called cb
             [err (T account_settings (storyPrivacy_params L privacy friends w)),
              response (T account_settings (storyPrivacy_params L privacy friends w)),
              JStr (body (T account_settings (storyPrivacy_params L privacy friends w)))],
           w\<lparr>posts := posts w @
             [(account_settings, storyPrivacy_params L privacy friends w)]\<rparr>))"
proof (intro conjI impI)
  show "storyPrivacy_params L privacy (FriendsList xs) w =
     [(''action'', JStr ''updateStoryPrivacy''),
      (''privacySetting'', L (ToInt32 privacy)),
      (''username'', JStr (username (cl w))),
      (''storyFriendsToBlock'', JStr (stringify_strings xs))]"
    by (rule storyPrivacy_params_list)
  show "parse_strings (stringify_strings xs) = Some xs"
    by (rule parse_stringify_strings)
  show null: "storyPrivacy_params L privacy FriendsNull w =
     [(''action'', JStr ''updateStoryPrivacy''),
      (''privacySetting'', L (ToInt32 privacy)),
      (''username'', JStr (username (cl w)))]"
    by (simp add: storyPrivacy_params_no_list)
  show undef: "storyPrivacy_params L privacy FriendsUndefined w =
     [(''action'', JStr ''updateStoryPrivacy''),
      (''privacySetting'', L (ToInt32 privacy)),
      (''username'', JStr (username (cl w)))]"
    by (simp add: storyPrivacy_params_no_list)
  show "map_of (storyPrivacy_params L privacy FriendsNull w) ''storyFriendsToBlock'' = None"
    unfolding null by simp
  show "map_of (storyPrivacy_params L privacy FriendsUndefined w) ''storyFriendsToBlock'' = None"
    unfolding undef by simp
next
  assume "\<not> is_function friends"
  then show "updateStoryPrivacy T L privacy friends cb w =
      (Called cb
         [err (T account_settings (storyPrivacy_params L privacy friends w)),
          response (T account_settings (storyPrivacy_params L privacy friends w)),
          JStr (body (T account_settings (storyPrivacy_params L privacy friends w)))],
       w\<lparr>posts := posts w @
         [(account_settings, storyPrivacy_params L privacy friends w)]\<rparr>)"
    by (simp add: updateStoryPrivacy_not_function client_post_forward)
qed

theorem updateStoryPrivacy_block_list_witness:
  "\<not> is_function (FriendsList [''alice'', ''bob''])
   \<and> stringify_strings [''alice'', ''bob''] =
       ''['' @ [CHR 0x22] @ ''alice'' @ [CHR 0x22] @ '','' @ [CHR 0x22] @ ''bob'' @ [CHR 0x22] @ '']''
   \<and> parse_strings (stringify_strings [''alice'', ''bob'']) = Some [''alice'', ''bob'']
   \<and> posts (snd (updateStoryPrivacy (example_transport ''ok'') example_labels (Fin 2)
        (FriendsList [''alice'', ''bob'']) (JFun 0) example_world)) =
     [(account_settings,
       [(''action'', JStr ''updateStoryPrivacy''), (''privacySetting'', JStr ''CUSTOM''),
        (''username'', JStr ''me''),
        (''storyFriendsToBlock'', JStr (stringify_strings [''alice'', ''bob'']))])]
   \<and> storyPrivacy_params example_labels (Fin 0) FriendsUndefined example_world =
     [(''action'', JStr ''updateStoryPrivacy''), (''privacySetting'', JStr ''EVERYONE''),
      (''username'', JStr ''me'')]"
proof -
  have literal: "stringify_strings [''alice'', ''bob''] =
      ''['' @ [CHR 0x22] @ ''alice'' @ [CHR 0x22] @ '','' @ [CHR 0x22] @ ''bob'' @ [CHR 0x22] @ '']''"
    by (simp add: stringify_strings_def json_quote_def json_escape_def)
  have two: "wrap32 (trunc 2) = 2" and zero: "wrap32 (trunc 0) = 0"
    by (simp_all add: trunc_def wrap32_def)
  note run = updateStoryPrivacy_block_list
    [of example_labels "Fin 2" "[''alice'', ''bob'']" example_world
      "FriendsList [''alice'', ''bob'']" "example_transport ''ok''" "JFun 0"]
  note none = updateStoryPrivacy_block_list
    [of example_labels "Fin 0" "[]" example_world FriendsUndefined "example_transport ''ok''" "JFun 0"]
  have sent: "posts (snd (updateStoryPrivacy (example_transport ''ok'') example_labels (Fin 2)
        (FriendsList [''alice'', ''bob'']) (JFun 0) example_world)) =
     [(account_settings,
       [(''action'', JStr ''updateStoryPrivacy''), (''privacySetting'', JStr ''CUSTOM''),
        (''username'', JStr ''me''),
        (''storyFriendsToBlock'', JStr (stringify_strings [''alice'', ''bob'']))])]"
    using run by (simp add: two example_labels_def example_world_def)
  have omitted: "storyPrivacy_params example_labels (Fin 0) FriendsUndefined example_world =
     [(''action'', JStr ''updateStoryPrivacy''), (''privacySetting'', JStr ''EVERYONE''),
      (''username'', JStr ''me'')]"
    using none by (simp add: zero example_labels_def example_world_def)
  show ?thesis
    using literal sent omitted run by simp
qed

subsection \<open>updateFeatureSettings\<close>

lemma js_or_eq: "js_or v c = (v = Some True \<or> c)"
  by (cases v) auto

lemma merge_features_distinct:
  assumes "distinct (feature_names fs)"
  shows "merge_features fs settings s =
           map2 (\<lambda>k c. (k, settings k = Some True \<or> c)) (feature_names fs) (cached_flags s)"
  using assms
  by (simp add: merge_features_def feature_names_def cached_flags_def js_or_eq)


lemma map_of_labelled:
  "distinct (map fst zs) \<Longrightarrow> (k, c) \<in> set zs \<Longrightarrow>
     map_of (map (\<lambda>(k, c). (k, f k c)) zs) k = Some (f k c)"
proof (induction zs)
  case Nil
  then show ?case by simp
next
  case (Cons z zs)
  obtain k' c' where z: "z = (k', c')"
    by (cases z)
  show ?case
  proof (cases "k' = k")
    case True
    then have "(k, c) \<notin> set zs"
      using Cons.prems(1) z by (auto simp: image_iff)
    then have "c' = c"
      using Cons.prems(2) z True by simp
    then show ?thesis
      using True z by simp
  next
    case False
    then show ?thesis
      using Cons z by simp
  qed
qed

lemma length_feature_names: "length (feature_names fs) = 8"
  by (simp add: feature_names_def)

lemma length_cached_flags: "length (cached_flags s) = 8"
  by (simp add: cached_flags_def)

lemma merge_features_same_on_names:
  assumes "\<forall>k\<in>set (feature_names fs). settings' k = settings k"
  shows "merge_features fs settings' s = merge_features fs settings s"
proof -
  have "settings' (frontFacingFlash fs) = settings (frontFacingFlash fs)"
    "settings' (replaySnaps fs) = settings (replaySnaps fs)"
    "settings' (smartFilters fs) = settings (smartFilters fs)"
    "settings' (visualFilters fs) = settings (visualFilters fs)"
    "settings' (powerSaveMode fs) = settings (powerSaveMode fs)"
    "settings' (specialText fs) = settings (specialText fs)"
    "settings' (swipeCashMode fs) = settings (swipeCashMode fs)"
    "settings' (travelMode fs) = settings (travelMode fs)"
    using assms by (simp_all add: feature_names_def)
  then show ?thesis
    by (simp add: merge_features_def)
qed

text \<open>
  Claim C1. Let the eight feature names be distinct. For every dictionary of requested
  flags, the object \<^verbatim>\<open>updateFeatureSettings\<close> serialises has exactly the eight names as
  its keys, each with the value (requested value or cached value); so a flag cached as
  true is sent as true whatever is requested for it, and a request that differs only at
  other keys sends the same object. The \<^verbatim>\<open>settings\<close> parameter is the JSON text of that
  object (reading it back gives the object), sent with the user name in one request.
\<close>

theorem updateFeatureSettings_merges_by_or:
  assumes names: "distinct (feature_names fs)"
  shows "map fst (merge_features fs settings (currentSession (cl w))) = feature_names fs
       \<and> merge_features fs settings (currentSession (cl w)) =
           map2 (\<lambda>k c. (k, settings k = Some True \<or> c))
             (feature_names fs) (cached_flags (currentSession (cl w)))
       \<and> (\<forall>(k, c) \<in> set (zip (feature_names fs) (cached_flags (currentSession (cl w)))).
            map_of (merge_features fs settings (currentSession (cl w))) k =
              Some (settings k = Some True \<or> c)
          \<and> (c \<longrightarrow> map_of (merge_features fs settings (currentSession (cl w))) k = Some True))
       \<and> (\<forall>settings'. (\<forall>k\<in>set (feature_names fs). settings' k = settings k) \<longrightarrow>
            merge_features fs settings' (currentSession (cl w)) =
              merge_features fs settings (currentSession (cl w)))
       \<and> featureSettings_params fs settings w =
           [(''settings'', JStr (stringify_flags (merge_features fs settings (currentSession (cl w))))),
            (''username'', JStr (username (cl w)))]
       \<and> parse_flags (stringify_flags (merge_features fs settings (currentSession (cl w)))) =
           Some (merge_features fs settings (currentSession (cl w)))
       \<and> updateFeatureSettings T fs settings cb w =
           (Called cb
              [err (T update_featureSettings (featureSettings_params fs settings w)),
               response (T update_featureSettings (featureSettings_params fs settings w)),
               JStr (body (T update_featureSettings (featureSettings_params fs settings w)))],
            w\<lparr>posts := posts w @
              [(update_featureSettings, featureSettings_params fs settings w)]\<rparr>)"
proof -
  let ?s = "currentSession (cl w)"
  let ?zs = "zip (feature_names fs) (cached_flags ?s)"
  have merged: "merge_features fs settings ?s =
      map2 (\<lambda>k c. (k, settings k = Some True \<or> c)) (feature_names fs) (cached_flags ?s)"
    using names by (rule merge_features_distinct)
  have keys: "map fst ?zs = feature_names fs"
    by (simp add: length_feature_names length_cached_flags)
  have key_list: "map fst (merge_features fs settings ?s) = feature_names fs"
    unfolding merged using keys by (simp add: case_prod_unfold comp_def)
  have each: "map_of (merge_features fs settings ?s) k = Some (settings k = Some True \<or> c)"
    if "(k, c) \<in> set ?zs" for k c
    unfolding merged using names that
    by (intro map_of_labelled) (simp_all only: keys)
  have kept: "map_of (merge_features fs settings ?s) k = Some True"
    if "(k, c) \<in> set ?zs" and c for k c
    using each [OF that(1)] that(2) by simp
  have ignore: "merge_features fs settings' ?s = merge_features fs settings ?s"
    if "\<forall>k\<in>set (feature_names fs). settings' k = settings k" for settings'
    using that by (rule merge_features_same_on_names)
  have params: "featureSettings_params fs settings w =
      [(''settings'', JStr (stringify_flags (merge_features fs settings ?s))),
       (''username'', JStr (username (cl w)))]"
    by (simp add: featureSettings_params_def)
  have reread: "parse_flags (stringify_flags (merge_features fs settings ?s)) =
      Some (merge_features fs settings ?s)"
    by (rule parse_stringify_flags)
  have run: "updateFeatureSettings T fs settings cb w =
      (Called cb
         [err (T update_featureSettings (featureSettings_params fs settings w)),
          response (T update_featureSettings (featureSettings_params fs settings w)),
          JStr (body (T update_featureSettings (featureSettings_params fs settings w)))],
       w\<lparr>posts := posts w @
         [(update_featureSettings, featureSettings_params fs settings w)]\<rparr>)"
    by (simp add: updateFeatureSettings_def client_post_forward)
  from key_list merged each kept ignore params reread run show ?thesis
    by blast
qed

theorem updateFeatureSettings_merges_by_or_witness:
  "distinct (feature_names example_features)
   \<and> example_settings ''front_facing_flash'' = Some False
   \<and> enableFrontFacingFlash (currentSession (cl example_world))
   \<and> example_settings ''bogus'' = Some True
   \<and> merge_features example_features example_settings (currentSession (cl example_world)) =
       [(''front_facing_flash'', True), (''replay_snaps'', True), (''smart_filters'', False),
        (''visual_filters'', True), (''power_save_mode'', False), (''special_text'', False),
        (''swipe_cash_mode'', False), (''travel_mode'', False)]"
proof -
  have names: "distinct (feature_names example_features)"
    by (simp add: feature_names_def example_features_def)
  note run = updateFeatureSettings_merges_by_or
    [where fs = example_features and settings = example_settings and w = example_world, OF names]
  have merged:
    "merge_features example_features example_settings (currentSession (cl example_world)) =
       [(''front_facing_flash'', True), (''replay_snaps'', True), (''smart_filters'', False),
        (''visual_filters'', True), (''power_save_mode'', False), (''special_text'', False),
        (''swipe_cash_mode'', False), (''travel_mode'', False)]"
    unfolding run [THEN conjunct2, THEN conjunct1]
    by (simp add: feature_names_def cached_flags_def example_features_def example_world_def
        example_session_def example_settings_def)
  show ?thesis
    using names merged
    by (simp add: example_settings_def example_world_def example_session_def)
qed


end
